theory Spec2Isabelle
  imports Complex_Main
begin

section \<open>Python strings\<close>

text \<open>
  A Python \<open>str\<close> is a \<open>string\<close> here: the bytes of its UTF-8 encoding, so an ASCII
  character is one byte below 128 and every other character a run of bytes from 128 on.
  Equality, concatenation, \<open>startswith\<close>, \<open>in\<close>, \<open>split\<close> and the removal of an ASCII
  character act on the encoding as they act on the string.

  The operations of the standard library that depend on the Unicode tables (\<open>lower\<close>,
  \<open>strip\<close>, the classes \<open>\d\<close> and \<open>\s\<close> of regular expressions, \<open>float\<close>, \<open>int\<close>, \<open>strptime\<close>)
  are written out for ASCII strings, where they are determined by the ten white-space
  characters, the ten digits and the letters \<open>A-Z\<close>. On a string that is not ASCII they are
  the library's (see \<open>pylib\<close> below).
\<close>

definition ascii_uppercase :: string where
  "ascii_uppercase = ''ABCDEFGHIJKLMNOPQRSTUVWXYZ''"

definition ascii_lowercase :: string where
  "ascii_lowercase = ''abcdefghijklmnopqrstuvwxyz''"

definition digits :: string where
  "digits = ''0123456789''"

definition whitespace :: string where
  "whitespace = [CHR 0x09, CHR 0x0A, CHR 0x0B, CHR 0x0C, CHR 0x0D,
                 CHR 0x1C, CHR 0x1D, CHR 0x1E, CHR 0x1F, CHR 0x20]"

text \<open>A string is ASCII when every byte of it is below 128.\<close>

definition is_ascii :: "string \<Rightarrow> bool" where
  "is_ascii s = list_all (\<lambda>c. (of_char c :: nat) < 128) s"

text \<open>The lower case of an ASCII character.\<close>

definition lower_char :: "char \<Rightarrow> char" where
  "lower_char c = (case map_of (zip ascii_uppercase ascii_lowercase) c of
                     None \<Rightarrow> c | Some d \<Rightarrow> d)"

text \<open>\<open>s.lower()\<close> for an ASCII string \<open>s\<close>.\<close>

definition ascii_lower :: "string \<Rightarrow> string" where
  "ascii_lower s = map lower_char s"

text \<open>The ASCII characters that \<open>str.isspace\<close> and the class \<open>\s\<close> hold to be white space.\<close>

definition is_space :: "char \<Rightarrow> bool" where
  "is_space c = (c \<in> set whitespace)"

text \<open>\<open>s.strip()\<close> for an ASCII string \<open>s\<close>.\<close>

definition ascii_strip :: "string \<Rightarrow> string" where
  "ascii_strip s = rev (dropWhile is_space (rev (dropWhile is_space s)))"

definition startswith :: "string \<Rightarrow> string \<Rightarrow> bool" where
  "startswith s p = (take (length p) s = p)"

text \<open>\<open>str_in p s\<close> is Python's \<open>p in s\<close> on two strings: \<open>p\<close> occurs in \<open>s\<close>.\<close>

fun str_in :: "string \<Rightarrow> string \<Rightarrow> bool" where
  "str_in p [] = (p = [])"
| "str_in p (c # cs) = (startswith (c # cs) p \<or> str_in p cs)"

text \<open>The ASCII characters that the class \<open>\d\<close> matches.\<close>

definition is_digit :: "char \<Rightarrow> bool" where
  "is_digit c = (c \<in> set digits)"

definition digit_val :: "char \<Rightarrow> nat" where
  "digit_val c = (case map_of (zip digits [0, 1, 2, 3, 4, 5, 6, 7, 8, 9]) c of None \<Rightarrow> 0 | Some n \<Rightarrow> n)"

text \<open>\<open>int(ds)\<close> on a string of ASCII digits.\<close>

definition int_of_digits :: "string \<Rightarrow> nat" where
  "int_of_digits ds = foldl (\<lambda>a c. 10 * a + digit_val c) 0 ds"


section \<open>Python floats\<close>

text \<open>
  A \<open>float\<close> is an IEEE 754 binary64 value: a finite value (a rational of the form
  \<open>m * 2^e\<close> with \<open>|m| < 2^53\<close> and \<open>-1074 \<le> e \<le> 971\<close>; the two zeros are not told apart),
  an infinity or a NaN. \<open>round64 x\<close> is the binary64 value nearest to the rational \<open>x\<close>,
  ties to the even significand, and the infinity of the sign of \<open>x\<close> when that value
  would be \<open>2^1024\<close> or more. It is what \<open>float\<close> returns on a decimal literal and what
  every arithmetic operation returns on its exact result.
\<close>

datatype pyfloat = Finite rat | PosInf | NegInf | NaN

text \<open>The binade of \<open>a > 0\<close>: the \<open>e\<close> with \<open>2^e \<le> a < 2^(e+1)\<close>, kept within \<open>-1022\<close>
  (below it the values are subnormal) and \<open>1023\<close>.\<close>

function exp_up :: "rat \<Rightarrow> int \<Rightarrow> int" where
  "exp_up a e = (if 2 \<le> a \<and> e < 1023 then exp_up (a / 2) (e + 1) else e)"
  by pat_completeness auto
termination
  by (relation "measure (\<lambda>(a, e). nat (1023 - e))") auto

function exp_down :: "rat \<Rightarrow> int \<Rightarrow> int" where
  "exp_down a e = (if a < 1 \<and> - 1022 < e then exp_down (a * 2) (e - 1) else e)"
  by pat_completeness auto
termination
  by (relation "measure (\<lambda>(a, e). nat (e + 1022))") auto

definition binade :: "rat \<Rightarrow> int" where
  "binade a = (if 1 \<le> a then exp_up a 0 else exp_down a 0)"

text \<open>\<open>2^k\<close> for an integer \<open>k\<close>.\<close>

definition pow2 :: "int \<Rightarrow> rat" where
  "pow2 k = (if 0 \<le> k then 2 ^ nat k else 1 / 2 ^ nat (- k))"

definition round_half_even :: "rat \<Rightarrow> int" where
  "round_half_even x =
     (let f = \<lfloor>x\<rfloor>; d = x - of_int f
      in if d < 1 / 2 then f else if 1 / 2 < d then f + 1
         else if even f then f else f + 1)"

definition round64 :: "rat \<Rightarrow> pyfloat" where
  "round64 x =
     (if x = 0 then Finite 0
      else let a = \<bar>x\<bar>;
               q = pow2 (binade a - 52);
               r = of_int (round_half_even (a / q)) * q
           in if 2 ^ 1024 \<le> r then (if 0 < x then PosInf else NegInf)
              else Finite (if 0 < x then r else - r))"

text \<open>\<open>x * y\<close> on floats.\<close>

fun float_mul :: "pyfloat \<Rightarrow> pyfloat \<Rightarrow> pyfloat" where
  "float_mul (Finite a) (Finite b) = round64 (a * b)"
| "float_mul NaN y = NaN"
| "float_mul x NaN = NaN"
| "float_mul (Finite a) PosInf = (if a = 0 then NaN else if 0 < a then PosInf else NegInf)"
| "float_mul (Finite a) NegInf = (if a = 0 then NaN else if 0 < a then NegInf else PosInf)"
| "float_mul PosInf (Finite b) = (if b = 0 then NaN else if 0 < b then PosInf else NegInf)"
| "float_mul NegInf (Finite b) = (if b = 0 then NaN else if 0 < b then NegInf else PosInf)"
| "float_mul PosInf PosInf = PosInf"
| "float_mul PosInf NegInf = NegInf"
| "float_mul NegInf PosInf = NegInf"
| "float_mul NegInf NegInf = PosInf"

text \<open>\<open>x * n\<close> for a float \<open>x\<close> and an \<open>int\<close> constant \<open>n\<close> of the source (each is
  below \<open>2^53\<close>, so its conversion to float is exact).\<close>

definition times_int :: "pyfloat \<Rightarrow> nat \<Rightarrow> pyfloat" where
  "times_int x n = float_mul x (Finite (of_nat n))"


section \<open>Calendar dates\<close>

text \<open>
  A \<open>datetime.date\<close>: year, month and day of the proleptic Gregorian calendar, years 1 to
  9999. The constructor \<open>dt.date(y, m, d)\<close> raises \<open>ValueError\<close> outside that range
  (\<open>mk_date\<close> returns \<open>None\<close>).
\<close>

record date =
  year :: nat
  month :: nat
  day :: nat

definition is_leap :: "nat \<Rightarrow> bool" where
  "is_leap y = (y mod 4 = 0 \<and> (y mod 100 \<noteq> 0 \<or> y mod 400 = 0))"

definition days_in_month :: "nat \<Rightarrow> nat \<Rightarrow> nat" where
  "days_in_month y m =
     (if m = 2 then (if is_leap y then 29 else 28)
      else if m = 4 \<or> m = 6 \<or> m = 9 \<or> m = 11 then 30 else 31)"

definition valid_date :: "date \<Rightarrow> bool" where
  "valid_date d =
     (1 \<le> year d \<and> year d \<le> 9999 \<and> 1 \<le> month d \<and> month d \<le> 12 \<and>
      1 \<le> day d \<and> day d \<le> days_in_month (year d) (month d))"

definition mk_date :: "nat \<Rightarrow> nat \<Rightarrow> nat \<Rightarrow> date option" where
  "mk_date y m d =
     (let r = \<lparr>year = y, month = m, day = d\<rparr> in if valid_date r then Some r else None)"

text \<open>\<open>d + dt.timedelta(days=n)\<close> for \<open>n \<ge> 0\<close>: the day \<open>n\<close> days after \<open>d\<close>; \<open>None\<close> is the
  \<open>OverflowError\<close> of a result after the year 9999 (or of a \<open>timedelta\<close> too large to build).\<close>

definition next_day :: "date \<Rightarrow> date" where
  "next_day d =
     (if day d < days_in_month (year d) (month d) then d\<lparr>day := day d + 1\<rparr>
      else if month d < 12 then d\<lparr>month := month d + 1, day := 1\<rparr>
      else \<lparr>year = year d + 1, month = 1, day = 1\<rparr>)"

definition add_days :: "date \<Rightarrow> nat \<Rightarrow> date option" where
  "add_days d n = (let r = (next_day ^^ n) d in if year r \<le> 9999 then Some r else None)"

text \<open>\<open>str(d)\<close> of a date: \<open>YYYY-MM-DD\<close>, zero-padded.\<close>

definition digit_char :: "nat \<Rightarrow> char" where
  "digit_char n = digits ! (n mod 10)"

definition zfill2 :: "nat \<Rightarrow> string" where
  "zfill2 n = [digit_char (n div 10), digit_char n]"

definition zfill4 :: "nat \<Rightarrow> string" where
  "zfill4 n = [digit_char (n div 1000), digit_char (n div 100), digit_char (n div 10), digit_char n]"

definition isoformat :: "date \<Rightarrow> string" where
  "isoformat d = zfill4 (year d) @ ''-'' @ zfill2 (month d) @ ''-'' @ zfill2 (day d)"

text \<open>
  \<open>datetime.strptime(s, fmt)\<close> for an ASCII string \<open>s\<close> and the formats of the source, in
  the C locale. The library
  turns the format into a regular expression (one group per directive, a run of
  whitespace in the format into \<open>\s+\<close>, letters compared without case), matches it at the
  start of \<open>s\<close>, requires the match to end where \<open>s\<close> ends, and builds the date from the
  groups (year 1900, month 1, day 1 where the format has no directive). The match is the
  first one a backtracking matcher finds, so each directive yields its alternatives in
  the order of the expression, and the alternatives of a format are those of its
  directives in sequence:
  \<^item> \<open>%Y\<close> is \<open>\d\d\d\d\<close>;
  \<^item> \<open>%m\<close> is \<open>1[0-2]|0[1-9]|[1-9]\<close>;
  \<^item> \<open>%d\<close> is \<open>3[0-1]|[1-2]\d|0[1-9]|[1-9]| [1-9]\<close>;
  \<^item> \<open>%B\<close> and \<open>%b\<close> are the month names, full (longest first) and abbreviated.
  \<open>None\<close> is the \<open>ValueError\<close> of a string that does not match, of text left over, or of a day
  the month does not have.
\<close>

datatype directive = DirY | Dirm | Dird | DirB | Dirb | Lit char | Space

fun alt2 :: "string \<Rightarrow> string \<Rightarrow> string \<Rightarrow> (nat \<times> string) list" where
  "alt2 p q (a # b # r) =
     (if a \<in> set p \<and> b \<in> set q then [(10 * digit_val a + digit_val b, r)] else [])"
| "alt2 p q s = []"

fun alt1 :: "string \<Rightarrow> string \<Rightarrow> (nat \<times> string) list" where
  "alt1 p (a # r) = (if a \<in> set p then [(digit_val a, r)] else [])"
| "alt1 p [] = []"

fun alt_space_digit :: "string \<Rightarrow> (nat \<times> string) list" where
  "alt_space_digit (a # b # r) =
     (if a = CHR '' '' \<and> b \<in> set ''123456789'' then [(digit_val b, r)] else [])"
| "alt_space_digit s = []"

fun match_Y :: "string \<Rightarrow> (nat \<times> string) list" where
  "match_Y (a # b # c # d # r) =
     (if list_all is_digit [a, b, c, d] then [(int_of_digits [a, b, c, d], r)] else [])"
| "match_Y s = []"

definition match_m :: "string \<Rightarrow> (nat \<times> string) list" where
  "match_m s = alt2 ''1'' ''012'' s @ alt2 ''0'' ''123456789'' s @ alt1 ''123456789'' s"

definition match_d :: "string \<Rightarrow> (nat \<times> string) list" where
  "match_d s = alt2 ''3'' ''01'' s @ alt2 ''12'' digits s @ alt2 ''0'' ''123456789'' s
               @ alt1 ''123456789'' s @ alt_space_digit s"

definition full_month_names :: "(string \<times> nat) list" where
  "full_month_names =
     [(''september'', 9), (''february'', 2), (''november'', 11), (''december'', 12),
      (''january'', 1), (''october'', 10), (''august'', 8), (''march'', 3), (''april'', 4),
      (''june'', 6), (''july'', 7), (''may'', 5)]"

definition abbr_month_names :: "(string \<times> nat) list" where
  "abbr_month_names =
     [(''jan'', 1), (''feb'', 2), (''mar'', 3), (''apr'', 4), (''may'', 5), (''jun'', 6),
      (''jul'', 7), (''aug'', 8), (''sep'', 9), (''oct'', 10), (''nov'', 11), (''dec'', 12)]"

definition match_name :: "(string \<times> nat) list \<Rightarrow> string \<Rightarrow> (nat \<times> string) list" where
  "match_name names s =
     concat (map (\<lambda>(name, i). if startswith (ascii_lower s) name then [(i, drop (length name) s)] else [])
               names)"

fun match_space :: "string \<Rightarrow> (nat \<times> string) list" where
  "match_space [] = []"
| "match_space (c # cs) = (if is_space c then match_space cs @ [(0, cs)] else [])"

fun match_lit :: "char \<Rightarrow> string \<Rightarrow> (nat \<times> string) list" where
  "match_lit c [] = []"
| "match_lit c (a # r) = (if lower_char a = lower_char c then [(0, r)] else [])"

fun match_directive :: "directive \<Rightarrow> string \<Rightarrow> (nat \<times> string) list" where
  "match_directive DirY s = match_Y s"
| "match_directive Dirm s = match_m s"
| "match_directive Dird s = match_d s"
| "match_directive DirB s = match_name full_month_names s"
| "match_directive Dirb s = match_name abbr_month_names s"
| "match_directive (Lit c) s = match_lit c s"
| "match_directive Space s = match_space s"

fun store :: "directive \<Rightarrow> nat \<Rightarrow> nat \<times> nat \<times> nat \<Rightarrow> nat \<times> nat \<times> nat" where
  "store DirY v (y, m, d) = (v, m, d)"
| "store Dirm v (y, m, d) = (y, v, d)"
| "store DirB v (y, m, d) = (y, v, d)"
| "store Dirb v (y, m, d) = (y, v, d)"
| "store Dird v (y, m, d) = (y, m, v)"
| "store (Lit c) v f = f"
| "store Space v f = f"

fun match_format ::
  "directive list \<Rightarrow> string \<Rightarrow> nat \<times> nat \<times> nat \<Rightarrow> ((nat \<times> nat \<times> nat) \<times> string) list" where
  "match_format [] s f = [(f, s)]"
| "match_format (d # ds) s f =
     concat (map (\<lambda>(v, r). match_format ds r (store d v f)) (match_directive d s))"

definition ascii_strptime :: "string \<Rightarrow> directive list \<Rightarrow> date option" where
  "ascii_strptime s fmt =
     (case match_format fmt s (1900, 1, 1) of
        [] \<Rightarrow> None
      | ((y, m, d), r) # alts \<Rightarrow> if r \<noteq> [] then None else mk_date y m d)"

definition fmt_Y_m_d :: "directive list" where
  "fmt_Y_m_d = [DirY, Lit (CHR ''-''), Dirm, Lit (CHR ''-''), Dird]"
definition fmt_d_m_Y :: "directive list" where
  "fmt_d_m_Y = [Dird, Lit (CHR ''/''), Dirm, Lit (CHR ''/''), DirY]"
definition fmt_m_d_Y :: "directive list" where
  "fmt_m_d_Y = [Dirm, Lit (CHR ''/''), Dird, Lit (CHR ''/''), DirY]"
definition fmt_B_d_Y :: "directive list" where
  "fmt_B_d_Y = [DirB, Space, Dird, Lit (CHR '',''), Space, DirY]"
definition fmt_b_d_Y :: "directive list" where
  "fmt_b_d_Y = [Dirb, Space, Dird, Lit (CHR '',''), Space, DirY]"
definition fmt_B_Y :: "directive list" where
  "fmt_B_Y = [DirB, Space, DirY]"
definition fmt_b_Y :: "directive list" where
  "fmt_b_Y = [Dirb, Space, DirY]"


datatype error = AttributeError | TypeError | ValueError | KeyError | OverflowError


section \<open>The standard library on ASCII strings\<close>

definition num_char :: "char \<Rightarrow> bool" where
  "num_char c = (is_digit c \<or> c = CHR ''.'')"

text \<open>\<open>re.search(r'[\d.]+', s)\<close> and \<open>re.search(r'\d+', s)\<close>: the leftmost, longest run of
  digits and dots, or of digits; \<open>None\<close> when there is none (\<open>.group()\<close> then raises).\<close>

definition ascii_search_number :: "string \<Rightarrow> string option" where
  "ascii_search_number s =
     (let t = takeWhile num_char (dropWhile (\<lambda>c. \<not> num_char c) s)
      in if t = [] then None else Some t)"

definition ascii_search_digits :: "string \<Rightarrow> string option" where
  "ascii_search_digits s =
     (let t = takeWhile is_digit (dropWhile (\<lambda>c. \<not> is_digit c) s)
      in if t = [] then None else Some t)"

text \<open>\<open>float(t)\<close> for a token \<open>t\<close> of ASCII digits and dots: digits with at most one dot
  and at least one digit denote a decimal number, and the result is the float nearest to
  it; anything else is a \<open>ValueError\<close> (\<open>None\<close>).\<close>

definition ascii_float :: "string \<Rightarrow> pyfloat option" where
  "ascii_float t =
     (let ip = takeWhile is_digit t; r = dropWhile is_digit t
      in case r of
           [] \<Rightarrow> if ip = [] then None else Some (round64 (of_nat (int_of_digits ip)))
         | c # fp \<Rightarrow>
             if c = CHR ''.'' \<and> list_all is_digit fp \<and> (ip \<noteq> [] \<or> fp \<noteq> [])
             then Some (round64 (of_nat (int_of_digits ip)
                                 + of_nat (int_of_digits fp) / 10 ^ length fp))
             else None)"

text \<open>The two tests with \<open>re.match\<close>: \<open>^(jan|feb|...|dec)[a-z]* \d{4}$\<close> without case, and
  \<open>^20\d{2}$\<close>; the \<open>$\<close> also matches before a final newline.\<close>

definition ascii_month_year_re :: "string \<Rightarrow> bool" where
  "ascii_month_year_re s =
     (list_ex (\<lambda>(name, i). startswith (ascii_lower s) name) abbr_month_names \<and>
      (case dropWhile (\<lambda>c. lower_char c \<in> set ascii_lowercase) (drop 3 s) of
         [sp, a, b, c, d] \<Rightarrow> sp = CHR '' '' \<and> list_all is_digit [a, b, c, d]
       | [sp, a, b, c, d, nl] \<Rightarrow>
           sp = CHR '' '' \<and> list_all is_digit [a, b, c, d] \<and> nl = CHR 0x0A
       | r \<Rightarrow> False))"

definition ascii_bare_year_re :: "string \<Rightarrow> bool" where
  "ascii_bare_year_re s =
     (case s of
        [a, b, c, d] \<Rightarrow> a = CHR ''2'' \<and> b = CHR ''0'' \<and> is_digit c \<and> is_digit d
      | [a, b, c, d, nl] \<Rightarrow>
          a = CHR ''2'' \<and> b = CHR ''0'' \<and> is_digit c \<and> is_digit d \<and> nl = CHR 0x0A
      | r \<Rightarrow> False)"

text \<open>\<open>int(t)\<close> for ASCII digits, with white space around them or none: what a match of
  \<open>\d+\<close> or of \<open>^20\d{2}$\<close> is.\<close>

definition ascii_int :: "string \<Rightarrow> nat option" where
  "ascii_int t =
     (let u = ascii_strip t
      in if u \<noteq> [] \<and> list_all is_digit u then Some (int_of_digits u) else None)"


section \<open>The standard library on every string\<close>

text \<open>
  What the library does on a string that is not ASCII depends on the Unicode tables of the
  interpreter (which characters are white space, decimal digits, cased, and their lower
  case). Those tables are not part of the repository: they are a parameter. Each field of
  \<open>pylib\<close> is one library call on a string that is not ASCII:
  \<^item> \<open>lower_u s\<close> is \<open>s.lower()\<close> and \<open>strip_u s\<close> is \<open>s.strip()\<close>;
  \<^item> \<open>search_number_u s\<close> and \<open>search_digits_u s\<close> are the matches of \<open>[\d.]+\<close> and \<open>\d+\<close>;
  \<^item> \<open>float_u t\<close> and \<open>int_u t\<close> are \<open>float(t)\<close> and \<open>int(t)\<close>, \<open>None\<close> when they raise
    (\<open>int_u\<close> also on an ASCII token of more than 4300 characters);
  \<^item> \<open>strptime_u s fmt\<close> is \<open>datetime.strptime(s, fmt).date()\<close>, \<open>None\<close> when it raises;
  \<^item> \<open>month_year_u s\<close> and \<open>bare_year_u s\<close> are the two tests with \<open>re.match\<close>.
  The functions below are the library calls of the source on any string: written out on
  an ASCII string, the library's on any other.
\<close>

record pylib =
  lower_u :: "string \<Rightarrow> string"
  strip_u :: "string \<Rightarrow> string"
  search_number_u :: "string \<Rightarrow> string option"
  search_digits_u :: "string \<Rightarrow> string option"
  float_u :: "string \<Rightarrow> pyfloat option"
  int_u :: "string \<Rightarrow> nat option"
  strptime_u :: "string \<Rightarrow> directive list \<Rightarrow> date option"
  month_year_u :: "string \<Rightarrow> bool"
  bare_year_u :: "string \<Rightarrow> bool"

definition lower :: "pylib \<Rightarrow> string \<Rightarrow> string" where
  "lower lib s = (if is_ascii s then ascii_lower s else lower_u lib s)"

definition strip :: "pylib \<Rightarrow> string \<Rightarrow> string" where
  "strip lib s = (if is_ascii s then ascii_strip s else strip_u lib s)"

definition search_number :: "pylib \<Rightarrow> string \<Rightarrow> string option" where
  "search_number lib s = (if is_ascii s then ascii_search_number s else search_number_u lib s)"

definition search_digits :: "pylib \<Rightarrow> string \<Rightarrow> string option" where
  "search_digits lib s = (if is_ascii s then ascii_search_digits s else search_digits_u lib s)"

definition float_of_token :: "pylib \<Rightarrow> string \<Rightarrow> pyfloat option" where
  "float_of_token lib t = (if is_ascii t then ascii_float t else float_u lib t)"

text \<open>\<open>int(t)\<close> for a match \<open>t\<close> of \<open>\d+\<close> or of \<open>^20\d{2}$\<close>. Recent interpreters refuse
  a literal of more than 4300 digits with a \<open>ValueError\<close>, older ones convert it, and the
  limit can be set: on a longer token the result is the library's.\<close>

definition int_of_token :: "pylib \<Rightarrow> string \<Rightarrow> nat option" where
  "int_of_token lib t =
     (if is_ascii t \<and> length t \<le> 4300 then ascii_int t else int_u lib t)"

definition strptime :: "pylib \<Rightarrow> string \<Rightarrow> directive list \<Rightarrow> date option" where
  "strptime lib s fmt = (if is_ascii s then ascii_strptime s fmt else strptime_u lib s fmt)"

definition month_year_re :: "pylib \<Rightarrow> string \<Rightarrow> bool" where
  "month_year_re lib s = (if is_ascii s then ascii_month_year_re s else month_year_u lib s)"

definition bare_year_re :: "pylib \<Rightarrow> string \<Rightarrow> bool" where
  "bare_year_re lib s = (if is_ascii s then ascii_bare_year_re s else bare_year_u lib s)"


section \<open>Currency normalizer: \<open>parse_currency\<close>\<close>

text \<open>\<open>amount.lower().replace(",", "").strip()\<close>.\<close>

definition normalize_amount :: "pylib \<Rightarrow> string \<Rightarrow> string" where
  "normalize_amount lib amount =
     strip lib (filter (\<lambda>c. c \<noteq> CHR '','') (lower lib amount))"

text \<open>\<open>numeric_part\<close>: the \<open>try\<close> block of the source; \<open>None\<close> is its \<open>except: return None\<close>.\<close>

definition numeric_part :: "pylib \<Rightarrow> string \<Rightarrow> pyfloat option" where
  "numeric_part lib amount =
     (case search_number lib amount of None \<Rightarrow> None | Some t \<Rightarrow> float_of_token lib t)"

text \<open>The currency symbols of the last test of the source, as UTF-8: dollar, pound,
  euro, yen.\<close>

definition currency_symbols :: "string list" where
  "currency_symbols = [''$'', [CHR 0xC2, CHR 0xA3], [CHR 0xE2, CHR 0x82, CHR 0xAC],
                       [CHR 0xC2, CHR 0xA5]]"

definition parse_currency :: "pylib \<Rightarrow> string \<Rightarrow> pyfloat option" where
  "parse_currency lib amount0 =
     (if amount0 = [] then None
      else let amount = normalize_amount lib amount0 in
        case numeric_part lib amount of
          None \<Rightarrow> None
        | Some n \<Rightarrow>
            if str_in ''million'' amount then Some (times_int n 1000000)
            else if str_in ''billion'' amount then Some (times_int n 1000000000)
            else if str_in ''thousand'' amount then Some (times_int n 1000)
            else if str_in ''m'' amount \<and> \<not> str_in ''million'' amount
              then Some (times_int n 1000000)
            else if str_in ''b'' amount \<and> \<not> str_in ''billion'' amount
              then Some (times_int n 1000000000)
            else if str_in ''k'' amount then Some (times_int n 1000)
            else if list_ex (\<lambda>symbol. str_in symbol amount) currency_symbols then Some n
            else Some n)"

text \<open>The multiplier as the specification words it: the first of \<open>million\<close>, \<open>billion\<close>,
  \<open>thousand\<close>, a bare \<open>m\<close>, a bare \<open>b\<close>, \<open>k\<close> that occurs, else one.\<close>

definition spec_multiplier :: "string \<Rightarrow> nat" where
  "spec_multiplier amount =
     (if str_in ''million'' amount then 1000000
      else if str_in ''billion'' amount then 1000000000
      else if str_in ''thousand'' amount then 1000
      else if str_in ''m'' amount then 1000000
      else if str_in ''b'' amount then 1000000000
      else if str_in ''k'' amount then 1000
      else 1)"


section \<open>Temporal normalizer: \<open>parse_date\<close>\<close>

text \<open>The body of the \<open>try\<close> for a string that starts with \<open>in \<close>:
  \<open>int(re.search(r'\d+', date_str).group())\<close> and the four units. \<open>None\<close> stands for every way
  of leaving the block without a \<open>return\<close>: no digits, no unit, or an overflow, all caught by
  the bare \<open>except\<close>.\<close>

definition relative_date :: "pylib \<Rightarrow> date \<Rightarrow> string \<Rightarrow> date option" where
  "relative_date lib now date_str =
     (case search_digits lib date_str of
        None \<Rightarrow> None
      | Some ds \<Rightarrow>
          (case int_of_token lib ds of
             None \<Rightarrow> None
           | Some num \<Rightarrow>
               if str_in ''day'' date_str then add_days now num
               else if str_in ''week'' date_str then add_days now (7 * num)
               else if str_in ''month'' date_str then add_days now (30 * num)
               else if str_in ''year'' date_str then add_days now (365 * num)
               else None))"

fun try_formats :: "pylib \<Rightarrow> string \<Rightarrow> directive list list \<Rightarrow> date option" where
  "try_formats lib s [] = None"
| "try_formats lib s (fmt # fmts) =
     (case strptime lib s fmt of Some d \<Rightarrow> Some d | None \<Rightarrow> try_formats lib s fmts)"

text \<open>
  \<open>parse_date\<close>: a date, \<open>None\<close>, or the exception that escapes. Only the two \<open>next\<close>
  literals can raise (the year after 9999), outside any \<open>try\<close>; \<open>now\<close> is
  \<open>dt.date.today()\<close>.
\<close>

definition date_or_ValueError :: "date option \<Rightarrow> error + date option" where
  "date_or_ValueError r = (case r of None \<Rightarrow> Inl ValueError | Some d \<Rightarrow> Inr (Some d))"

definition parse_date :: "pylib \<Rightarrow> date \<Rightarrow> string \<Rightarrow> error + date option" where
  "parse_date lib now date_str0 =
     (if date_str0 = [] then Inr None
      else let date_str = strip lib (lower lib date_str0) in
        case (if startswith date_str ''in '' then relative_date lib now date_str else None) of
          Some d \<Rightarrow> Inr (Some d)
        | None \<Rightarrow>
            if date_str = ''next month'' then
              (let next_month = (if month now < 12 then month now + 1 else 1);
                   next_year = (if month now < 12 then year now else year now + 1)
               in date_or_ValueError (mk_date next_year next_month 1))
            else if date_str = ''next year'' then
              date_or_ValueError (mk_date (year now + 1) 1 1)
            else
              (case try_formats lib date_str
                      [fmt_Y_m_d, fmt_d_m_Y, fmt_m_d_Y, fmt_B_d_Y, fmt_b_d_Y] of
                 Some d \<Rightarrow> Inr (Some d)
               | None \<Rightarrow>
                   (case (if month_year_re lib date_str
                          then (case strptime lib date_str fmt_B_Y of
                                  Some d \<Rightarrow> Some d
                                | None \<Rightarrow> strptime lib date_str fmt_b_Y)
                          else None) of
                      Some d \<Rightarrow> Inr (Some d)
                    | None \<Rightarrow>
                        if bare_year_re lib date_str
                        then (case int_of_token lib date_str of
                                None \<Rightarrow> Inl ValueError
                              | Some y \<Rightarrow> date_or_ValueError (mk_date y 1 1))
                        else Inr None)))"


section \<open>Values decoded from JSON\<close>

text \<open>
  What \<open>json.loads\<close> returns: \<open>None\<close>, a \<open>bool\<close>, an \<open>int\<close>, a \<open>float\<close>, a \<open>str\<close>, a \<open>list\<close> or a
  \<open>dict\<close> with string keys. A \<open>dict\<close> is an association list read with \<open>map_of\<close>. The
  source applies \<open>in\<close>, subscription, \<open>.get\<close>, \<open>float\<close> and truth tests to such values
  without checking their type, so each operation is modelled on every kind of value, with
  the exception Python raises.
\<close>

datatype json =
    JNull
  | JBool bool
  | JInt int
  | JFloat pyfloat
  | JString string
  | JArray "json list"
  | JObject "(string \<times> json) list"

fun truthy :: "json \<Rightarrow> bool" where
  "truthy JNull = False"
| "truthy (JBool b) = b"
| "truthy (JInt i) = (i \<noteq> 0)"
| "truthy (JFloat r) = (r \<noteq> Finite 0)"
| "truthy (JString s) = (s \<noteq> [])"
| "truthy (JArray xs) = (xs \<noteq> [])"
| "truthy (JObject kvs) = (kvs \<noteq> [])"

text \<open>\<open>k in v\<close> for a string \<open>k\<close>.\<close>

fun py_in :: "string \<Rightarrow> json \<Rightarrow> error + bool" where
  "py_in k (JObject kvs) = Inr (map_of kvs k \<noteq> None)"
| "py_in k (JArray xs) = Inr (List.member xs (JString k))"
| "py_in k (JString s) = Inr (str_in k s)"
| "py_in k v = Inl TypeError"

text \<open>\<open>all(k in v for k in ks)\<close>: stops at the first key that is missing.\<close>

fun all_in :: "string list \<Rightarrow> json \<Rightarrow> error + bool" where
  "all_in [] v = Inr True"
| "all_in (k # ks) v =
     (case py_in k v of
        Inl err \<Rightarrow> Inl err
      | Inr present \<Rightarrow> if present then all_in ks v else Inr False)"

text \<open>\<open>v[k]\<close> for a string \<open>k\<close>.\<close>

fun py_getitem :: "json \<Rightarrow> string \<Rightarrow> error + json" where
  "py_getitem (JObject kvs) k = (case map_of kvs k of None \<Rightarrow> Inl KeyError | Some x \<Rightarrow> Inr x)"
| "py_getitem v k = Inl TypeError"

text \<open>\<open>v.get(k, dflt)\<close>: only a \<open>dict\<close> has the method.\<close>

fun py_get :: "json \<Rightarrow> string \<Rightarrow> json \<Rightarrow> error + json" where
  "py_get (JObject kvs) k dflt = (case map_of kvs k of None \<Rightarrow> Inr dflt | Some x \<Rightarrow> Inr x)"
| "py_get v k dflt = Inl AttributeError"

text \<open>\<open>d[k] = x\<close> on a \<open>dict\<close>: the entry is replaced where it stands, or added last.\<close>

fun dict_set :: "(string \<times> json) list \<Rightarrow> string \<Rightarrow> json \<Rightarrow> (string \<times> json) list" where
  "dict_set [] k x = [(k, x)]"
| "dict_set ((k', y) # kvs) k x = (if k' = k then (k, x) # kvs else (k', y) # dict_set kvs k x)"

fun py_setitem :: "json \<Rightarrow> string \<Rightarrow> json \<Rightarrow> error + json" where
  "py_setitem (JObject kvs) k x = Inr (JObject (dict_set kvs k x))"
| "py_setitem v k x = Inl TypeError"

definition bind_err :: "error + 'a \<Rightarrow> ('a \<Rightarrow> error + 'b) \<Rightarrow> error + 'b" where
  "bind_err m f = (case m of Inl err \<Rightarrow> Inl err | Inr x \<Rightarrow> f x)"


section \<open>The external collaborators\<close>

datatype GoalType = NEW_HOME | NEW_CAR | OTHER

text \<open>
  The prompt sent to the language model is one of four fixed templates of the source with
  the user's text and (for the goal templates) today's date interpolated; the model keeps
  the template and the interpolated values.
\<close>

datatype prompt =
    UserInfoPrompt string
  | HomePrompt string date
  | CarPrompt string date
  | OtherPrompt string date

text \<open>
  What the source takes from outside \<open>chat.py\<close>, as parameters of the model:
  \<^item> \<open>lib\<close>: the standard library on strings that are not ASCII;
  \<^item> \<open>llm\<close>: the call to the language model; \<open>None\<close> when \<open>llm\<close> returns \<open>None\<close> (the API
    error it catches) or raises (the callers catch every exception of the call);
  \<^item> \<open>json_loads\<close>: \<open>json.loads\<close>; \<open>None\<close> when it raises;
  \<^item> \<open>float_of_str\<close>: \<open>float\<close> on a string; \<open>None\<close> is its \<open>ValueError\<close>;
  \<^item> \<open>today\<close>: \<open>dt.date.today()\<close>;
  \<^item> \<open>format_amount\<close>: the format \<open>:,.2f\<close> of a float in an f-string;
  \<^item> \<open>repr_json\<close>: \<open>str\<close> of a decoded value that is not a string.
\<close>

record env =
  lib :: pylib
  llm :: "prompt \<Rightarrow> string option"
  json_loads :: "string \<Rightarrow> json option"
  float_of_str :: "string \<Rightarrow> pyfloat option"
  today :: date
  format_amount :: "pyfloat \<Rightarrow> string"
  repr_json :: "json \<Rightarrow> string"

text \<open>\<open>float(v)\<close>. An \<open>int\<close> is rounded to the nearest float, and one that rounds beyond
  the largest raises \<open>OverflowError\<close>.\<close>

definition py_float :: "env \<Rightarrow> json \<Rightarrow> error + pyfloat" where
  "py_float env v =
     (case v of
        JInt i \<Rightarrow> (case round64 (of_int i) of
                     Finite r \<Rightarrow> Inr (Finite r) | x \<Rightarrow> Inl OverflowError)
      | JFloat r \<Rightarrow> Inr r
      | JBool b \<Rightarrow> Inr (Finite (if b then 1 else 0))
      | JString s \<Rightarrow> (case float_of_str env s of None \<Rightarrow> Inl ValueError | Some r \<Rightarrow> Inr r)
      | JNull \<Rightarrow> Inl TypeError
      | JArray xs \<Rightarrow> Inl TypeError
      | JObject kvs \<Rightarrow> Inl TypeError)"

text \<open>\<open>str(v)\<close> inside an f-string.\<close>

definition py_str :: "env \<Rightarrow> json \<Rightarrow> string" where
  "py_str env v = (case v of JString s \<Rightarrow> s | w \<Rightarrow> repr_json env w)"

text \<open>\<open>parse_date\<close> as the source calls it, on a decoded value: a falsy value returns \<open>None\<close>
  at the first test, a string is parsed, and any other value has no \<open>lower\<close> method.\<close>

definition parse_date_value :: "pylib \<Rightarrow> date \<Rightarrow> json \<Rightarrow> error + date option" where
  "parse_date_value lib' now v =
     (if \<not> truthy v then Inr None
      else case v of JString s \<Rightarrow> parse_date lib' now s | w \<Rightarrow> Inl AttributeError)"


section \<open>Extraction adapter\<close>

text \<open>\<open>s.split(sep)[0]\<close> and the text after the first \<open>sep\<close> in \<open>s\<close>.\<close>

fun before_first :: "string \<Rightarrow> string \<Rightarrow> string" where
  "before_first sep [] = []"
| "before_first sep (c # cs) =
     (if startswith (c # cs) sep then [] else c # before_first sep cs)"

fun after_first :: "string \<Rightarrow> string \<Rightarrow> string" where
  "after_first sep [] = []"
| "after_first sep (c # cs) =
     (if startswith (c # cs) sep then drop (length sep) (c # cs) else after_first sep cs)"

text \<open>\<open>response.split('```json')[1].split('```')[0]\<close> when the fence is present.\<close>

definition unfence :: "string \<Rightarrow> string" where
  "unfence response =
     (if str_in ''```json'' response
      then before_first ''```'' (before_first ''```json'' (after_first ''```json'' response))
      else response)"

text \<open>The \<open>try\<close> block shared by both extractors up to \<open>json.loads\<close>: \<open>None\<close> when the call
  fails, the response is empty or the text does not parse.\<close>

definition load_response :: "env \<Rightarrow> prompt \<Rightarrow> json option" where
  "load_response env p =
     (case llm env p of
        None \<Rightarrow> None
      | Some response \<Rightarrow>
          if response = [] then None else json_loads env (strip (lib env) (unfence response)))"

definition extract_user_info :: "env \<Rightarrow> string \<Rightarrow> json" where
  "extract_user_info env text' =
     (case load_response env (UserInfoPrompt text') of None \<Rightarrow> JObject [] | Some v \<Rightarrow> v)"

definition goal_prompt :: "GoalType \<Rightarrow> string \<Rightarrow> date \<Rightarrow> prompt" where
  "goal_prompt goal_type' text' today' =
     (case goal_type' of
        NEW_HOME \<Rightarrow> HomePrompt text' today'
      | NEW_CAR \<Rightarrow> CarPrompt text' today'
      | OTHER \<Rightarrow> OtherPrompt text' today')"

text \<open>The date validation of \<open>extract_goal_details\<close>; every exception is caught by the
  \<open>except Exception\<close> of the source and gives \<open>None\<close>.\<close>

definition validate_date :: "env \<Rightarrow> json \<Rightarrow> json option" where
  "validate_date env data =
     (case py_in ''purchase_date'' data of
        Inl err \<Rightarrow> None
      | Inr has_purchase \<Rightarrow>
          (case (if has_purchase then Inr True else py_in ''target_date'' data) of
             Inl err \<Rightarrow> None
           | Inr has_date \<Rightarrow>
               if \<not> has_date then Some data
               else let date_key = (if has_purchase then ''purchase_date'' else ''target_date'') in
                 (case py_getitem data date_key of
                    Inl err \<Rightarrow> None
                  | Inr date_str \<Rightarrow>
                      (case parse_date_value (lib env) (today env) date_str of
                         Inr (Some parsed_date) \<Rightarrow>
                           (case py_setitem data date_key (JString (isoformat parsed_date)) of
                              Inl err \<Rightarrow> None
                            | Inr data' \<Rightarrow> Some data')
                       | r \<Rightarrow> None))))"

definition extract_goal_details :: "env \<Rightarrow> string \<Rightarrow> GoalType \<Rightarrow> json option" where
  "extract_goal_details env text' goal_type' =
     (case load_response env (goal_prompt goal_type' text' (today env)) of
        None \<Rightarrow> None
      | Some data \<Rightarrow> validate_date env data)"

section \<open>Conversation data\<close>

datatype Sender = USER | AI

record Message =
  msg_text :: string
  sender :: Sender

datatype ConversationStage =
    GET_USER_INFO
  | GET_GOAL_TYPE
  | GET_GOAL_DETAILS
  | CONFIRM_GOAL
  | ADD_ANOTHER_GOAL
  | COMPLETED

text \<open>
  Modelled from the spec: the module \<open>factfind\<close> (\<open>User\<close>, \<open>Goal\<close>, \<open>GoalType\<close> and the three
  goal-information classes) is not among the sources. Following section 3 of the
  specification and the way \<open>chat.py\<close> constructs and updates them, they are plain mutable
  records: a constructor stores its arguments and checks nothing, and the fields of a
  \<open>Goal\<close> can be assigned. The fields taken from the decoded response without conversion
  (names, email, location, car type, description) hold whatever value was decoded.
\<close>

datatype goal_information =
    NewHomeGoalInformation json pyfloat pyfloat "date option"
  | NewCarInformation json pyfloat "date option"
  | OtherGoalInformation json pyfloat "date option"

text \<open>
  The objects of \<open>chat.py\<close> are mutable and shared: \<open>chat_response\<close> updates the
  \<open>ExtractedInformation\<close> of its argument in place and returns a new \<open>ConversationState\<close>
  that holds the same object. So the objects live in a store and refer to each other by
  reference. \<open>next_ref\<close> is the next unused reference: an object built by a constructor is
  placed there. The lists \<open>messages\<close>, \<open>new_messages\<close> are values of their state object (the
  source only ever builds new ones with \<open>+\<close>), and \<open>goals\<close> is a value of its \<open>User\<close> (the
  source appends to it through the \<open>User\<close> only).
\<close>

type_synonym ref = nat

record Goal =
  goal_type :: GoalType
  goal_name :: string
  goal_specific_information :: "goal_information option"

record User =
  first_name :: json
  last_name :: json
  date_of_birth :: "date option"
  email :: json
  goals :: "ref option list"

record ExtractedInformation =
  user :: "ref option"
  pending_goal :: "ref option"
  conversation_stage :: ConversationStage

record ConversationState =
  finished :: bool
  messages :: "Message list"
  new_messages :: "Message list"
  extracted_information :: ref

record heap =
  next_ref :: ref
  state_objs :: "ref \<Rightarrow> ConversationState"
  info_objs :: "ref \<Rightarrow> ExtractedInformation"
  user_objs :: "ref \<Rightarrow> User"
  goal_objs :: "ref \<Rightarrow> Goal"

text \<open>The defaults of the two dataclasses: \<open>ExtractedInformation()\<close> and, around a
  snapshot \<open>e\<close>, \<open>ConversationState()\<close>.\<close>

definition initial_information :: ExtractedInformation where
  "initial_information =
     \<lparr>user = None, pending_goal = None, conversation_stage = GET_USER_INFO\<rparr>"

definition initial_state :: "ref \<Rightarrow> ConversationState" where
  "initial_state e =
     \<lparr>finished = False, messages = [], new_messages = [], extracted_information = e\<rparr>"

definition new_state :: "heap \<Rightarrow> ConversationState \<Rightarrow> heap \<times> ref" where
  "new_state h st =
     (h\<lparr>next_ref := Suc (next_ref h), state_objs := (state_objs h)(next_ref h := st)\<rparr>,
      next_ref h)"

definition new_user :: "heap \<Rightarrow> User \<Rightarrow> heap \<times> ref" where
  "new_user h u =
     (h\<lparr>next_ref := Suc (next_ref h), user_objs := (user_objs h)(next_ref h := u)\<rparr>,
      next_ref h)"

definition new_goal :: "heap \<Rightarrow> Goal \<Rightarrow> heap \<times> ref" where
  "new_goal h g =
     (h\<lparr>next_ref := Suc (next_ref h), goal_objs := (goal_objs h)(next_ref h := g)\<rparr>,
      next_ref h)"

text \<open>Assignment to fields of the snapshot \<open>e\<close>.\<close>

definition update_info ::
  "heap \<Rightarrow> ref \<Rightarrow> (ExtractedInformation \<Rightarrow> ExtractedInformation) \<Rightarrow> heap" where
  "update_info h e f = h\<lparr>info_objs := (info_objs h)(e := f (info_objs h e))\<rparr>"


section \<open>Dialogue engine: \<open>chat_response\<close>\<close>

definition STOP_COMMANDS :: "string set" where
  "STOP_COMMANDS = {''exit'', ''quit'', ''stop'', ''done''}"

definition ai :: "string \<Rightarrow> Message" where
  "ai t = \<lparr>msg_text = t, sender = AI\<rparr>"

definition closing_text :: string where
  "closing_text = ''Thank you for providing your financial goals information.''"

definition ask_goal_text :: string where
  "ask_goal_text =
     ''Thank you! What financial goal would you like to discuss? (new home/new car/other)''"

definition ask_identity_text :: string where
  "ask_identity_text = ''Please provide your full name, date of birth (YYYY-MM-DD), and email''"

definition ask_home_text :: string where
  "ask_home_text =
     ''Please tell me about the home you want to buy (location, price, deposit, and timeline)''"

definition ask_car_text :: string where
  "ask_car_text =
     ''Please tell me about the car you want to buy (make/model, price, and timeline)''"

definition ask_other_text :: string where
  "ask_other_text = ''Please describe your financial goal (what you want to achieve, ''
     @ ''how much money you'' @ [CHR 0x27] @ ''ll need, and by when)''"

definition retry_home_text :: string where
  "retry_home_text = ''I couldn'' @ [CHR 0x27] @ ''t understand those home details. ''
     @ ''Please provide: location, price, deposit, and timeline (e.g. '' @ [CHR 0x27]
     @ ''Buy $1.5M home in London with 50k deposit in 3 years'' @ [CHR 0x27] @ '')''"

definition retry_car_text :: string where
  "retry_car_text = ''I couldn'' @ [CHR 0x27] @ ''t understand those car details. ''
     @ ''Please provide: make/model, price, and timeline (e.g. '' @ [CHR 0x27]
     @ ''Buy a Tesla Model 3 for $40k in 6 months'' @ [CHR 0x27] @ '')''"

definition retry_other_text :: string where
  "retry_other_text = ''I couldn'' @ [CHR 0x27] @ ''t understand that goal. ''
     @ ''Please describe what you want to achieve, how much money you'' @ [CHR 0x27]
     @ ''ll need, and by when (e.g. '' @ [CHR 0x27]
     @ ''Start a business needing $50k by 2025'' @ [CHR 0x27] @ '')''"

definition saved_text :: string where
  "saved_text = ''Goal saved! Would you like to add another goal? (yes/no)''"

definition try_again_text :: string where
  "try_again_text = ''Okay, let'' @ [CHR 0x27]
     @ ''s try again. What goal would you like to discuss? (new home/new car/other)''"

definition ask_next_goal_text :: string where
  "ask_next_goal_text =
     ''What other financial goal would you like to discuss? (new home/new car/other)''"

text \<open>\<open>str\<close> of an optional date in an f-string.\<close>

definition str_date :: "date option \<Rightarrow> string" where
  "str_date d = (case d of None \<Rightarrow> ''None'' | Some x \<Rightarrow> isoformat x)"

definition confirm_text :: "env \<Rightarrow> goal_information \<Rightarrow> string" where
  "confirm_text env info =
     (case info of
        NewHomeGoalInformation location house_price deposit_amount purchase_date \<Rightarrow>
          ''Confirm: Buy home in '' @ py_str env location @ '' for $''
          @ format_amount env house_price @ '' with $'' @ format_amount env deposit_amount
          @ '' deposit by '' @ str_date purchase_date @ ''? (yes/no)''
      | NewCarInformation car_type car_price purchase_date \<Rightarrow>
          ''Confirm: Buy '' @ py_str env car_type @ '' for $'' @ format_amount env car_price
          @ '' by '' @ str_date purchase_date @ ''? (yes/no)''
      | OtherGoalInformation description amount_required target_date \<Rightarrow>
          ''Confirm: '' @ py_str env description @ '' requiring $''
          @ format_amount env amount_required @ '' by '' @ str_date target_date
          @ ''? (yes/no)'')"

definition retry_text :: "GoalType \<Rightarrow> string" where
  "retry_text t =
     (case t of NEW_HOME \<Rightarrow> retry_home_text | NEW_CAR \<Rightarrow> retry_car_text
      | OTHER \<Rightarrow> retry_other_text)"

definition last_message :: "ConversationState \<Rightarrow> string" where
  "last_message state = (if messages state = [] then [] else msg_text (last (messages state)))"

text \<open>The branch for \<open>GET_USER_INFO\<close>. The four subscriptions and \<open>parse_date\<close> are the
  arguments of \<open>User(...)\<close>, evaluated in order before anything is assigned.\<close>

definition get_user_info_step ::
  "env \<Rightarrow> heap \<Rightarrow> ref \<Rightarrow> string \<Rightarrow> error + heap \<times> Message list" where
  "get_user_info_step env h e last_message' =
     (let user_info = extract_user_info env last_message' in
      bind_err (all_in [''first_name'', ''last_name'', ''date_of_birth'', ''email''] user_info)
        (\<lambda>complete.
          if complete then
            bind_err (py_getitem user_info ''first_name'') (\<lambda>fn.
            bind_err (py_getitem user_info ''last_name'') (\<lambda>ln.
            bind_err (py_getitem user_info ''date_of_birth'') (\<lambda>dob.
            bind_err (parse_date_value (lib env) (today env) dob) (\<lambda>birth.
            bind_err (py_getitem user_info ''email'') (\<lambda>em.
              let (h1, u) = new_user h \<lparr>first_name = fn, last_name = ln,
                              date_of_birth = birth, email = em, goals = []\<rparr>;
                  h2 = update_info h1 e
                         (\<lambda>x. x\<lparr>user := Some u, conversation_stage := GET_GOAL_TYPE\<rparr>)
              in Inr (h2, [ai ask_goal_text]))))))
          else Inr (h, [ai ask_identity_text])))"

text \<open>The branch for \<open>GET_GOAL_TYPE\<close>.\<close>

definition get_goal_type_step ::
  "env \<Rightarrow> heap \<Rightarrow> ref \<Rightarrow> string \<Rightarrow> heap \<times> Message list" where
  "get_goal_type_step env h e last_message' =
     (let goal_type' = lower (lib env) last_message';
          (kind, name, question) =
            (if str_in ''home'' goal_type' then (NEW_HOME, ''Buy a new home'', ask_home_text)
             else if str_in ''car'' goal_type' then (NEW_CAR, ''Buy a new car'', ask_car_text)
             else (OTHER, ''Other financial goal'', ask_other_text));
          (h1, g) = new_goal h \<lparr>goal_type = kind, goal_name = name,
                                goal_specific_information = None\<rparr>;
          h2 = update_info h1 e
                 (\<lambda>x. x\<lparr>pending_goal := Some g, conversation_stage := GET_GOAL_DETAILS\<rparr>)
      in (h2, [ai question]))"

text \<open>The goal information built from the extracted fields, one constructor per kind; the
  arguments are evaluated in the order of the source.\<close>

definition build_information :: "env \<Rightarrow> GoalType \<Rightarrow> json \<Rightarrow> error + goal_information" where
  "build_information env kind goal_details =
     (case kind of
        NEW_HOME \<Rightarrow>
          bind_err (py_get goal_details ''location'' (JString [])) (\<lambda>location.
          bind_err (bind_err (py_get goal_details ''house_price'' (JInt 0)) (py_float env))
            (\<lambda>house_price.
          bind_err (bind_err (py_get goal_details ''deposit_amount'' (JInt 0)) (py_float env))
            (\<lambda>deposit_amount.
          bind_err (bind_err (py_get goal_details ''purchase_date'' (JString []))
                      (parse_date_value (lib env) (today env))) (\<lambda>purchase_date.
            Inr (NewHomeGoalInformation location house_price deposit_amount purchase_date)))))
      | NEW_CAR \<Rightarrow>
          bind_err (py_get goal_details ''car_type'' (JString [])) (\<lambda>car_type.
          bind_err (bind_err (py_get goal_details ''car_price'' (JInt 0)) (py_float env))
            (\<lambda>car_price.
          bind_err (bind_err (py_get goal_details ''purchase_date'' (JString []))
                      (parse_date_value (lib env) (today env))) (\<lambda>purchase_date.
            Inr (NewCarInformation car_type car_price purchase_date))))
      | OTHER \<Rightarrow>
          bind_err (py_get goal_details ''description'' (JString [])) (\<lambda>description.
          bind_err (bind_err (py_get goal_details ''amount_required'' (JInt 0)) (py_float env))
            (\<lambda>amount_required.
          bind_err (bind_err (py_get goal_details ''target_date'' (JString []))
                      (parse_date_value (lib env) (today env))) (\<lambda>target_date.
            Inr (OtherGoalInformation description amount_required target_date)))))"

text \<open>The branch for \<open>GET_GOAL_DETAILS\<close>. Reading \<open>pending_goal.goal_type\<close> with no pending
  goal raises before the extraction is called.\<close>

definition get_goal_details_step ::
  "env \<Rightarrow> heap \<Rightarrow> ref \<Rightarrow> string \<Rightarrow> error + heap \<times> Message list" where
  "get_goal_details_step env h e last_message' =
     (case pending_goal (info_objs h e) of
        None \<Rightarrow> Inl AttributeError
      | Some g \<Rightarrow>
          let kind = goal_type (goal_objs h g) in
          (case extract_goal_details env last_message' kind of
             None \<Rightarrow> Inr (h, [ai (retry_text kind)])
           | Some goal_details \<Rightarrow>
               if truthy goal_details then
                 bind_err (build_information env kind goal_details) (\<lambda>info.
                   let h1 = h\<lparr>goal_objs := (goal_objs h)
                              (g := (goal_objs h g)\<lparr>goal_specific_information := Some info\<rparr>)\<rparr>;
                       h2 = update_info h1 e (\<lambda>x. x\<lparr>conversation_stage := CONFIRM_GOAL\<rparr>)
                   in Inr (h2, [ai (confirm_text env info)]))
               else Inr (h, [ai (retry_text kind)])))"

text \<open>The branch for \<open>CONFIRM_GOAL\<close>. \<open>extracted.user.goals.append\<close> raises when there is no
  user; what it appends is \<open>pending_goal\<close>, whatever it holds.\<close>

definition confirm_goal_step ::
  "env \<Rightarrow> heap \<Rightarrow> ref \<Rightarrow> string \<Rightarrow> error + heap \<times> Message list" where
  "confirm_goal_step env h e last_message' =
     (if startswith (lower (lib env) last_message') ''y'' then
        (case user (info_objs h e) of
           None \<Rightarrow> Inl AttributeError
         | Some u \<Rightarrow>
             let h1 = h\<lparr>user_objs := (user_objs h)
                        (u := (user_objs h u)\<lparr>goals := goals (user_objs h u)
                                                  @ [pending_goal (info_objs h e)]\<rparr>)\<rparr>;
                 h2 = update_info h1 e
                        (\<lambda>x. x\<lparr>pending_goal := None, conversation_stage := ADD_ANOTHER_GOAL\<rparr>)
             in Inr (h2, [ai saved_text]))
      else
        Inr (update_info h e (\<lambda>x. x\<lparr>pending_goal := None, conversation_stage := GET_GOAL_TYPE\<rparr>),
             [ai try_again_text]))"

text \<open>The branch for \<open>ADD_ANOTHER_GOAL\<close>.\<close>

definition add_another_goal_step ::
  "env \<Rightarrow> heap \<Rightarrow> ref \<Rightarrow> string \<Rightarrow> heap \<times> Message list" where
  "add_another_goal_step env h e last_message' =
     (if startswith (lower (lib env) last_message') ''y''
      then (update_info h e (\<lambda>x. x\<lparr>conversation_stage := GET_GOAL_TYPE\<rparr>),
            [ai ask_next_goal_text])
      else (update_info h e (\<lambda>x. x\<lparr>conversation_stage := COMPLETED\<rparr>), [ai closing_text]))"

text \<open>The \<open>if\<close>/\<open>elif\<close> chain on the stage; no branch handles \<open>COMPLETED\<close>.\<close>

definition stage_step ::
  "env \<Rightarrow> heap \<Rightarrow> ref \<Rightarrow> string \<Rightarrow> error + heap \<times> Message list" where
  "stage_step env h e last_message' =
     (case conversation_stage (info_objs h e) of
        GET_USER_INFO \<Rightarrow> get_user_info_step env h e last_message'
      | GET_GOAL_TYPE \<Rightarrow> Inr (get_goal_type_step env h e last_message')
      | GET_GOAL_DETAILS \<Rightarrow> get_goal_details_step env h e last_message'
      | CONFIRM_GOAL \<Rightarrow> confirm_goal_step env h e last_message'
      | ADD_ANOTHER_GOAL \<Rightarrow> Inr (add_another_goal_step env h e last_message')
      | COMPLETED \<Rightarrow> Inr (h, []))"

text \<open>
  \<open>chat_response\<close> on the state object \<open>s\<close> of the store \<open>h\<close>: an exception, or the store
  after the call and the reference of the new state object. Every \<open>raise\<close> of the source
  happens before its first assignment, so when the call raises the store is as it was.
\<close>

definition chat_response :: "env \<Rightarrow> heap \<Rightarrow> ref \<Rightarrow> error + heap \<times> ref" where
  "chat_response env h s =
     (let e = extracted_information (state_objs h s);
          last_message' = last_message (state_objs h s)
      in if strip (lib env) (lower (lib env) last_message') \<in> STOP_COMMANDS then
           (let h1 = update_info h e (\<lambda>x. x\<lparr>conversation_stage := COMPLETED\<rparr>)
            in Inr (new_state h1
                 \<lparr>finished = True,
                  messages = messages (state_objs h1 s) @ new_messages (state_objs h1 s),
                  new_messages = [ai closing_text],
                  extracted_information = e\<rparr>))
         else
           bind_err (stage_step env h e last_message') (\<lambda>(h1, new_messages').
             Inr (new_state h1
                 \<lparr>finished = (conversation_stage (info_objs h1 e) = COMPLETED),
                  messages = messages (state_objs h1 s) @ new_messages (state_objs h1 s),
                  new_messages = new_messages',
                  extracted_information = e\<rparr>)))"

text \<open>
  The states a conversation can reach, seen at its snapshot \<open>e\<close>: a store in which \<open>e\<close> is
  a fresh \<open>ExtractedInformation()\<close>, and then any number of turns. In a turn the caller
  passes any state object of its making that holds the snapshot (in particular the state
  returned by the turn before, with the next utterance appended to its messages), the
  collaborators answer in any way, and \<open>chat_response\<close> returns.
\<close>

inductive reachable :: "heap \<Rightarrow> ref \<Rightarrow> bool" where
  initial: "info_objs h e = initial_information \<Longrightarrow> reachable h e"
| turn: "reachable h e \<Longrightarrow> extracted_information st = e \<Longrightarrow>
         chat_response env (h\<lparr>state_objs := (state_objs h)(s := st)\<rparr>) s = Inr (h', s') \<Longrightarrow>
         reachable h' e"


section \<open>Example stores and collaborators\<close>

text \<open>
  For concrete runs. Responses of the language model, as JSON text, and what \<open>json.loads\<close>
  decodes them to; \<open>truncated_text\<close> is a response cut short, which does not parse.
\<close>

definition quoted :: "string \<Rightarrow> string" where
  "quoted s = [CHR 0x22] @ s @ [CHR 0x22]"

definition identity_text :: string where
  "identity_text =
     ''{'' @ quoted ''first_name'' @ '': '' @ quoted ''John'' @ '', ''
     @ quoted ''last_name'' @ '': '' @ quoted ''Smith'' @ '', ''
     @ quoted ''date_of_birth'' @ '': '' @ quoted ''1990-05-01'' @ '', ''
     @ quoted ''email'' @ '': '' @ quoted ''john@example.com'' @ ''}''"

definition london_text :: string where
  "london_text =
     ''{'' @ quoted ''location'' @ '': '' @ quoted ''London'' @ ''}''"

definition car_someday_text :: string where
  "car_someday_text =
     ''{'' @ quoted ''car_type'' @ '': '' @ quoted ''Tesla'' @ '', ''
     @ quoted ''car_price'' @ '': 40000, '' @ quoted ''purchase_date'' @ '': ''
     @ quoted ''someday'' @ ''}''"

definition trip_text :: string where
  "trip_text =
     ''{'' @ quoted ''description'' @ '': '' @ quoted ''trip'' @ '', ''
     @ quoted ''target_date'' @ '': '' @ quoted ''2027-06-15'' @ ''}''"

definition two_dates_text :: string where
  "two_dates_text =
     ''{'' @ quoted ''description'' @ '': '' @ quoted ''trip'' @ '', ''
     @ quoted ''purchase_date'' @ '': '' @ quoted ''2027-06-15'' @ '', ''
     @ quoted ''target_date'' @ '': '' @ quoted ''someday'' @ ''}''"

definition truncated_text :: string where
  "truncated_text =
     ''{'' @ quoted ''car_type'' @ '': '' @ quoted ''Tes''"

definition identity_fields :: json where
  "identity_fields =
     JObject [(''first_name'', JString ''John''), (''last_name'', JString ''Smith''),
              (''date_of_birth'', JString ''1990-05-01''),
              (''email'', JString ''john@example.com'')]"

definition london_fields :: json where
  "london_fields =
     JObject [(''location'', JString ''London'')]"

definition car_someday_fields :: json where
  "car_someday_fields =
     JObject [(''car_type'', JString ''Tesla''), (''car_price'', JInt 40000),
              (''purchase_date'', JString ''someday'')]"

definition trip_fields :: json where
  "trip_fields =
     JObject [(''description'', JString ''trip''), (''target_date'', JString ''2027-06-15'')]"

definition two_dates_fields :: json where
  "two_dates_fields =
     JObject [(''description'', JString ''trip''),
              (''purchase_date'', JString ''2027-06-15''), (''target_date'', JString ''someday'')]"

text \<open>\<open>json.loads\<close> on the texts above, and a \<open>JSONDecodeError\<close> on the text cut short (and,
  in this table, on every text that is not listed).\<close>

definition example_json_loads :: "string \<Rightarrow> json option" where
  "example_json_loads s =
     map_of [(identity_text, identity_fields), (london_text, london_fields),
             (car_someday_text, car_someday_fields), (trip_text, trip_fields),
             (two_dates_text, two_dates_fields)] s"

text \<open>A library for runs on ASCII strings, where it is never consulted.\<close>

definition example_lib :: pylib where
  "example_lib =
     \<lparr>lower_u = (\<lambda>s. s), strip_u = (\<lambda>s. s), search_number_u = (\<lambda>s. None),
      search_digits_u = (\<lambda>s. None), float_u = (\<lambda>s. None), int_u = (\<lambda>s. None),
      strptime_u = (\<lambda>s fmt. None), month_year_u = (\<lambda>s. False),
      bare_year_u = (\<lambda>s. False)\<rparr>"

text \<open>
  Collaborators that answer every prompt with the same response (or fail every call), on
  the third of November 2026.
\<close>

definition example_env :: "string option \<Rightarrow> env" where
  "example_env response =
     \<lparr>lib = example_lib, llm = (\<lambda>p. response), json_loads = example_json_loads,
      float_of_str = (\<lambda>s. None), today = \<lparr>year = 2026, month = 11, day = 3\<rparr>,
      format_amount = (\<lambda>r. ''0.00''), repr_json = (\<lambda>v. ''?'')\<rparr>"

text \<open>
  A store: the state object \<open>0\<close> holds one user message and the snapshot \<open>0\<close>; every user
  reference holds the same person and every goal reference a goal of the given kind
  without details.
\<close>

definition example_user :: User where
  "example_user =
     \<lparr>first_name = JString ''John'', last_name = JString ''Smith'',
      date_of_birth = Some \<lparr>year = 1990, month = 5, day = 1\<rparr>,
      email = JString ''john@example.com'', goals = []\<rparr>"

definition example_heap :: "ExtractedInformation \<Rightarrow> GoalType \<Rightarrow> string \<Rightarrow> heap" where
  "example_heap info kind utterance =
     \<lparr>next_ref = 3,
      state_objs = (\<lambda>r. \<lparr>finished = False,
                          messages = [\<lparr>msg_text = utterance, sender = USER\<rparr>],
                          new_messages = [], extracted_information = 0\<rparr>),
      info_objs = (\<lambda>r. info),
      user_objs = (\<lambda>r. example_user),
      goal_objs = (\<lambda>r. \<lparr>goal_type = kind, goal_name = ''Goal'',
                         goal_specific_information = None\<rparr>)\<rparr>"


section \<open>Conversations\<close>

text \<open>
  A caller's side of a conversation, for concrete runs: the store of a new conversation,
  and a loop that appends each utterance as a user message to the current state object
  and passes that object to \<open>chat_response\<close>. The run stops at the first exception.
\<close>

definition initial_heap :: heap where
  "initial_heap =
     \<lparr>next_ref = 1,
      state_objs = (\<lambda>r. initial_state 0),
      info_objs = (\<lambda>r. initial_information),
      user_objs = (\<lambda>r. example_user),
      goal_objs = (\<lambda>r. \<lparr>goal_type = OTHER, goal_name = [],
                         goal_specific_information = None\<rparr>)\<rparr>"

definition say :: "heap \<Rightarrow> ref \<Rightarrow> string \<Rightarrow> heap" where
  "say h s utterance =
     h\<lparr>state_objs := (state_objs h)
         (s := (state_objs h s)\<lparr>messages := messages (state_objs h s)
                                    @ [\<lparr>msg_text = utterance, sender = USER\<rparr>]\<rparr>)\<rparr>"

fun conversation :: "env \<Rightarrow> heap \<Rightarrow> ref \<Rightarrow> string list \<Rightarrow> error + heap \<times> ref" where
  "conversation env h s [] = Inr (h, s)"
| "conversation env h s (utterance # rest) =
     bind_err (chat_response env (say h s utterance) s)
       (\<lambda>(h', s'). conversation env h' s' rest)"

text \<open>What a caller sees of a result: the snapshot of the returned state.\<close>

definition snapshot_after :: "error + heap \<times> ref \<Rightarrow> ExtractedInformation option" where
  "snapshot_after r =
     (case r of
        Inl err \<Rightarrow> None
      | Inr (h', s') \<Rightarrow> Some (info_objs h' (extracted_information (state_objs h' s'))))"

text \<open>The invariant as the specification words it: the pending goal is non-null iff the
  stage is one of the two goal-capture stages.\<close>

definition pending_iff_capture :: "ExtractedInformation \<Rightarrow> bool" where
  "pending_iff_capture x =
     ((pending_goal x \<noteq> None) = (conversation_stage x \<in> {GET_GOAL_DETAILS, CONFIRM_GOAL}))"


section \<open>Evaluation on concrete strings and numbers\<close>

declare exp_up.simps [simp del] exp_down.simps [simp del]

lemmas str_eval = is_ascii_def lower_def strip_def ascii_lower_def lower_char_def
  ascii_uppercase_def ascii_lowercase_def ascii_strip_def is_space_def whitespace_def
  startswith_def is_digit_def digits_def digit_val_def int_of_digits_def

lemmas currency_eval = parse_currency_def normalize_amount_def numeric_part_def
  search_number_def ascii_search_number_def float_of_token_def ascii_float_def num_char_def
  times_int_def

lemmas binade_eval = round64_def Let_def binade_def exp_up.simps exp_down.simps pow2_def

lemma round64_exact:
  "round64 0 = Finite 0" "round64 (3 / 2) = Finite (3 / 2)" "round64 (5 / 2) = Finite (5 / 2)"
  "round64 20 = Finite 20" "round64 500 = Finite 500" "round64 2500 = Finite 2500"
  "round64 20000 = Finite 20000" "round64 1500000 = Finite 1500000"
  by (simp_all add: binade_eval) (simp_all add: round_half_even_def Let_def)


section \<open>The currency normalizer\<close>

lemma parse_currency_1_5M: "parse_currency L ''1.5M'' = Some (Finite 1500000)"
  by (simp add: currency_eval str_eval round64_exact)

lemma parse_currency_20k: "parse_currency L ''20k'' = Some (Finite 20000)"
  by (simp add: currency_eval str_eval round64_exact)

lemma parse_currency_dollar_500: "parse_currency L ''$500'' = Some (Finite 500)"
  by (simp add: currency_eval str_eval round64_exact)

lemma parse_currency_empty: "parse_currency L '''' = None"
  by (simp add: parse_currency_def)

lemma parse_currency_multiplier:
  "parse_currency L amount =
     (if amount = [] then None
      else map_option
             (\<lambda>n. if spec_multiplier (normalize_amount L amount) = 1 then n
                  else times_int n (spec_multiplier (normalize_amount L amount)))
             (numeric_part L (normalize_amount L amount)))"
  by (simp add: parse_currency_def spec_multiplier_def Let_def split: option.split)

text \<open>
  C7. \<open>parse_currency\<close> returns 1500000 on \<open>1.5M\<close>, 20000 on \<open>20k\<close>, 500 on \<open>$500\<close> and
  none on the empty string; and on every input its result is the numeric part times the
  multiplier chosen in the priority order million, billion, thousand, bare m, bare b, k,
  else the numeric part itself (times one). The numeric part is the float nearest to the
  decimal number matched, and the product is the float product. This holds for every
  library \<open>L\<close>: on an input that is not ASCII, lower-casing, stripping, the match and
  the conversion are the library's.
\<close>

theorem C7_parse_currency:
  "parse_currency L ''1.5M'' = Some (Finite 1500000) \<and>
   parse_currency L ''20k'' = Some (Finite 20000) \<and>
   parse_currency L ''$500'' = Some (Finite 500) \<and>
   parse_currency L '''' = None \<and>
   parse_currency L amount =
     (if amount = [] then None
      else map_option
             (\<lambda>n. if spec_multiplier (normalize_amount L amount) = 1 then n
                  else times_int n (spec_multiplier (normalize_amount L amount)))
             (numeric_part L (normalize_amount L amount)))"
  using parse_currency_1_5M parse_currency_20k parse_currency_dollar_500
    parse_currency_empty parse_currency_multiplier
  by blast

theorem C7_parse_currency_witness:
  "parse_currency example_lib ''2.5 thousand'' = Some (Finite 2500) \<and>
   spec_multiplier (normalize_amount example_lib ''2.5 thousand'') = 1000"
proof -
  have m: "spec_multiplier (normalize_amount example_lib ''2.5 thousand'') = 1000"
    by (simp add: spec_multiplier_def normalize_amount_def str_eval)
  have n: "numeric_part example_lib (normalize_amount example_lib ''2.5 thousand'')
             = Some (Finite (5 / 2))"
    by (simp add: currency_eval str_eval round64_exact)
  have t: "times_int (Finite (5 / 2)) 1000 = Finite 2500"
    by (simp add: times_int_def round64_exact)
  show ?thesis
    using C7_parse_currency [of example_lib "''2.5 thousand''"] m n t by simp
qed

lemma round64_2_11: "round64 (211 / 100) = Finite (4751297606875873 / 2251799813685248)"
proof -
  have f: "\<lfloor>118782440171896832 / 25 :: rat\<rfloor> = 4751297606875873"
    by (rule floor_unique) simp_all
  show ?thesis
    by (simp add: binade_eval) (simp add: round_half_even_def Let_def f)
qed

lemma round64_2_11_billion:
  "round64 (9279878138429439453125 / 4398046511104) = Finite (8849981439999999 / 4194304)"
proof -
  have f: "\<lfloor>9279878138429439453125 / 1048576 :: rat\<rfloor> = 8849981439999999"
    by (rule floor_unique) simp_all
  show ?thesis
    by (simp add: binade_eval) (simp add: round_half_even_def Let_def f)
qed

text \<open>The product is rounded as the float product is: \<open>2.11\<close> is not a binary fraction,
  the float nearest to it times \<open>10\<^sup>9\<close> is \<open>9279878138429439453125 / 2\<^sup>4\<^sup>2\<close>, and
  \<open>2.11 billion\<close> gives \<open>2109999999.9999998\<close>.\<close>

lemma parse_currency_2_11_billion:
  "parse_currency L ''2.11 billion'' = Some (Finite (8849981439999999 / 4194304))"
  by (simp add: currency_eval str_eval round64_2_11 round64_2_11_billion)


section \<open>The temporal normalizer on ISO dates\<close>

lemma digit_char_in_digits: "digit_char n \<in> set digits"
  by (simp add: digit_char_def digits_def del: set_simps)

lemma digit_cases:
  "c \<in> set digits \<Longrightarrow>
   c = CHR ''0'' \<or> c = CHR ''1'' \<or> c = CHR ''2'' \<or> c = CHR ''3'' \<or> c = CHR ''4'' \<or>
   c = CHR ''5'' \<or> c = CHR ''6'' \<or> c = CHR ''7'' \<or> c = CHR ''8'' \<or> c = CHR ''9''"
  by (simp add: digits_def)

lemma digit_not_space: "c \<in> set digits \<Longrightarrow> \<not> is_space c"
  by (drule digit_cases, elim disjE) (simp_all add: is_space_def whitespace_def)

lemma digit_lower: "c \<in> set digits \<Longrightarrow> lower_char c = c"
  by (drule digit_cases, elim disjE)
    (simp_all add: lower_char_def ascii_uppercase_def ascii_lowercase_def)

lemma digit_val_digit_char: "digit_val (digit_char n) = n mod 10"
proof -
  have "n mod 10 < 10" by simp
  then have "n mod 10 = 0 \<or> n mod 10 = 1 \<or> n mod 10 = 2 \<or> n mod 10 = 3 \<or> n mod 10 = 4 \<or>
             n mod 10 = 5 \<or> n mod 10 = 6 \<or> n mod 10 = 7 \<or> n mod 10 = 8 \<or> n mod 10 = 9"
    by arith
  then show ?thesis
    by (elim disjE) (simp_all add: digit_char_def digit_val_def digits_def)
qed

lemma strip_id: "s \<noteq> [] \<Longrightarrow> \<not> is_space (hd s) \<Longrightarrow> \<not> is_space (last s) \<Longrightarrow> ascii_strip s = s"
proof -
  assume a: "s \<noteq> []" "\<not> is_space (hd s)" "\<not> is_space (last s)"
  then have 1: "dropWhile is_space s = s" by (cases s) simp_all
  from a have 2: "dropWhile is_space (rev s) = rev s"
    by (cases "rev s") (simp_all add: last_rev [symmetric] hd_rev)
  show ?thesis by (simp add: ascii_strip_def 1 2)
qed

lemma digit_ascii: "c \<in> set digits \<Longrightarrow> (of_char c :: nat) < 128"
  by (drule digit_cases, elim disjE) simp_all

lemma is_ascii_isoformat: "is_ascii (isoformat d)"
  by (simp add: is_ascii_def isoformat_def zfill4_def zfill2_def digit_ascii
      digit_char_in_digits)

lemma ascii_lower_isoformat: "ascii_lower (isoformat d) = isoformat d"
  by (simp add: ascii_lower_def isoformat_def zfill4_def zfill2_def digit_lower digit_char_in_digits)
    (simp add: lower_char_def ascii_uppercase_def ascii_lowercase_def)

lemma ascii_strip_isoformat: "ascii_strip (isoformat d) = isoformat d"
  by (rule strip_id)
    (simp_all add: isoformat_def zfill4_def zfill2_def digit_not_space digit_char_in_digits)

lemma lower_isoformat: "lower L (isoformat d) = isoformat d"
  by (simp add: lower_def is_ascii_isoformat ascii_lower_isoformat)

lemma strip_isoformat: "strip L (isoformat d) = isoformat d"
  by (simp add: strip_def is_ascii_isoformat ascii_strip_isoformat)

lemma isoformat_head: "\<exists>r. isoformat d = digit_char (year d div 1000) # r"
  by (simp add: isoformat_def zfill4_def)

lemma isoformat_not_relative: "\<not> startswith (isoformat d) ''in ''"
proof -
  have "digit_char n \<noteq> CHR ''i''" for n
    using digit_cases [OF digit_char_in_digits [of n]] by auto
  then show ?thesis by (simp add: startswith_def isoformat_def zfill4_def)
qed

lemma isoformat_not_next: "isoformat d \<noteq> ''next month'' \<and> isoformat d \<noteq> ''next year''"
proof -
  have "digit_char n \<noteq> CHR ''n''" for n
    using digit_cases [OF digit_char_in_digits [of n]] by auto
  then show ?thesis by (simp add: isoformat_def zfill4_def)
qed

lemma match_Y_zfill4: "y \<le> 9999 \<Longrightarrow> match_Y (zfill4 y @ r) = [(y, r)]"
proof -
  assume y: "y \<le> 9999"
  have d: "is_digit (digit_char n)" for n
    by (simp add: is_digit_def digit_char_in_digits)
  have a: "y div 100 = y div 10 div 10" "y div 1000 = y div 10 div 10 div 10"
    by (simp_all add: div_mult2_eq)
  have c: "y div 10 div 10 div 10 mod 10 = y div 10 div 10 div 10"
    using y by (simp add: a [symmetric])
  have s: "10 * (n div 10) + n mod 10 = n" for n :: nat by simp
  have "10 * (10 * (10 * (y div 1000 mod 10) + y div 100 mod 10) + y div 10 mod 10)
          + y mod 10 = y"
    unfolding a c by (simp only: s)
  moreover have "y div 1000 mod 10 = y div 1000"
    using c by (simp only: a)
  ultimately have v: "int_of_digits [digit_char (y div 1000), digit_char (y div 100),
             digit_char (y div 10), digit_char y] = y"
    by (simp add: int_of_digits_def digit_val_digit_char)
  show ?thesis using v by (simp add: zfill4_def d)
qed

lemma match_m_zfill2:
  assumes "1 \<le> m" "m \<le> 12"
  shows "\<exists>alts. match_m (zfill2 m @ r) = (m, r) # alts"
proof -
  from assms have "m = 1 \<or> m = 2 \<or> m = 3 \<or> m = 4 \<or> m = 5 \<or> m = 6 \<or> m = 7 \<or> m = 8 \<or>
    m = 9 \<or> m = 10 \<or> m = 11 \<or> m = 12" by arith
  then show ?thesis
    by (elim disjE) (simp_all add: match_m_def zfill2_def digit_char_def digits_def digit_val_def)
qed

lemma match_d_zfill2:
  assumes "1 \<le> d" "d \<le> 31"
  shows "\<exists>alts. match_d (zfill2 d @ r) = (d, r) # alts"
proof -
  from assms have "d = 1 \<or> d = 2 \<or> d = 3 \<or> d = 4 \<or> d = 5 \<or> d = 6 \<or> d = 7 \<or> d = 8 \<or>
    d = 9 \<or> d = 10 \<or> d = 11 \<or> d = 12 \<or> d = 13 \<or> d = 14 \<or> d = 15 \<or> d = 16 \<or> d = 17 \<or>
    d = 18 \<or> d = 19 \<or> d = 20 \<or> d = 21 \<or> d = 22 \<or> d = 23 \<or> d = 24 \<or> d = 25 \<or> d = 26 \<or>
    d = 27 \<or> d = 28 \<or> d = 29 \<or> d = 30 \<or> d = 31" by arith
  then show ?thesis
    by (elim disjE) (simp_all add: match_d_def zfill2_def digit_char_def digits_def digit_val_def)
qed

lemma days_in_month_le: "days_in_month y m \<le> 31"
  by (simp add: days_in_month_def)

lemma strptime_isoformat:
  assumes "valid_date d"
  shows "strptime L (isoformat d) fmt_Y_m_d = Some d"
proof -
  from assms have y: "year d \<le> 9999" and m: "1 \<le> month d" "month d \<le> 12"
    and dd: "1 \<le> day d" "day d \<le> 31"
    using days_in_month_le [of "year d" "month d"] by (auto simp: valid_date_def)
  obtain am where am: "match_m (zfill2 (month d) @ ''-'' @ zfill2 (day d))
      = (month d, ''-'' @ zfill2 (day d)) # am"
    using match_m_zfill2 [OF m] by blast
  obtain ad where ad: "match_d (zfill2 (day d) @ []) = (day d, []) # ad"
    using match_d_zfill2 [OF dd] by blast
  have "\<exists>alts. match_format fmt_Y_m_d (isoformat d) (1900, 1, 1)
          = ((year d, month d, day d), []) # alts"
    using am ad
    by (simp add: fmt_Y_m_d_def isoformat_def match_Y_zfill4 [OF y] lower_char_def
        ascii_uppercase_def ascii_lowercase_def)
  then show ?thesis
    using assms
    by (cases d) (auto simp: strptime_def is_ascii_isoformat ascii_strptime_def mk_date_def)
qed

text \<open>
  C6. \<open>parse_date\<close> round-trips ISO dates: for every valid calendar date, whatever today
  is, \<open>parse_date\<close> on its \<open>YYYY-MM-DD\<close> rendering returns that date; no earlier rule
  (relative prefix, \<open>next\<close> literal) takes the string. The rendering is ASCII, so the
  result does not depend on the library \<open>L\<close>.
\<close>

theorem C6_parse_date_isoformat:
  "valid_date d \<Longrightarrow> parse_date L now (isoformat d) = Inr (Some d)"
proof -
  assume v: "valid_date d"
  have ne: "isoformat d \<noteq> []" by (simp add: isoformat_def)
  show ?thesis
    using isoformat_not_next [of d]
    by (simp add: parse_date_def ne lower_isoformat strip_isoformat isoformat_not_relative
        strptime_isoformat [OF v])
qed


theorem C6_parse_date_isoformat_witness:
  "valid_date \<lparr>year = 2024, month = 2, day = 29\<rparr> \<and>
   parse_date example_lib \<lparr>year = 2026, month = 11, day = 3\<rparr> ''2024-02-29''
     = Inr (Some \<lparr>year = 2024, month = 2, day = 29\<rparr>)"
proof -
  have v: "valid_date \<lparr>year = 2024, month = 2, day = 29\<rparr>"
    by (simp add: valid_date_def days_in_month_def is_leap_def)
  have i: "isoformat \<lparr>year = 2024, month = 2, day = 29\<rparr> = ''2024-02-29''"
    by (simp add: isoformat_def zfill4_def zfill2_def digit_char_def digits_def)
  show ?thesis
    using C6_parse_date_isoformat [OF v, of example_lib "\<lparr>year = 2026, month = 11, day = 3\<rparr>"] v
    by (simp add: i)
qed


section \<open>The dialogue engine\<close>

lemmas example_eval = example_heap_def example_env_def example_lib_def example_user_def
  last_message_def STOP_COMMANDS_def

lemma chat_response_stop:
  assumes "strip (lib env) (lower (lib env) (last_message (state_objs h s))) \<in> STOP_COMMANDS"
  shows "chat_response env h s =
    Inr (new_state
          (update_info h (extracted_information (state_objs h s))
             (\<lambda>x. x\<lparr>conversation_stage := COMPLETED\<rparr>))
          \<lparr>finished = True,
           messages = messages (state_objs h s) @ new_messages (state_objs h s),
           new_messages = [ai closing_text],
           extracted_information = extracted_information (state_objs h s)\<rparr>)"
  using assms by (simp add: chat_response_def Let_def update_info_def)

text \<open>
  C3. Whatever the stage of the snapshot, when the last message, lower-cased and stripped
  (by \<open>str.lower\<close> and \<open>str.strip\<close>, on any string),
  is one of \<open>exit\<close>, \<open>quit\<close>, \<open>stop\<close>, \<open>done\<close>, \<open>chat_response\<close> returns a state that is
  finished, whose stage is \<open>COMPLETED\<close> and whose new messages are the closing
  acknowledgment.
\<close>

theorem C3_stop_command:
  assumes "strip (lib env) (lower (lib env) (last_message (state_objs h s))) \<in> STOP_COMMANDS"
  shows "\<exists>h' s'. chat_response env h s = Inr (h', s') \<and>
           finished (state_objs h' s') \<and>
           conversation_stage (info_objs h' (extracted_information (state_objs h' s'))) = COMPLETED \<and>
           new_messages (state_objs h' s') = [ai closing_text]"
  by (simp add: chat_response_stop [OF assms] new_state_def update_info_def)

lemma chat_response_continue:
  assumes "strip (lib env) (lower (lib env) (last_message (state_objs h s))) \<notin> STOP_COMMANDS"
  shows "chat_response env h s =
    bind_err (stage_step env h (extracted_information (state_objs h s))
                (last_message (state_objs h s)))
      (\<lambda>(h1, new_messages').
         Inr (new_state h1
               \<lparr>finished = (conversation_stage
                   (info_objs h1 (extracted_information (state_objs h s))) = COMPLETED),
                messages = messages (state_objs h1 s) @ new_messages (state_objs h1 s),
                new_messages = new_messages',
                extracted_information = extracted_information (state_objs h s)\<rparr>))"
  using assms by (simp add: chat_response_def Let_def)

text \<open>
  C10. \<open>COMPLETED\<close> is absorbing: from a state whose stage is \<open>COMPLETED\<close>, on every
  utterance, \<open>chat_response\<close> returns a finished state whose stage is \<open>COMPLETED\<close>; when
  the utterance is not a stop command the new messages are empty.
\<close>

theorem C10_completed_absorbing:
  assumes "conversation_stage (info_objs h (extracted_information (state_objs h s))) = COMPLETED"
  shows "\<exists>h' s'. chat_response env h s = Inr (h', s') \<and>
           conversation_stage (info_objs h' (extracted_information (state_objs h' s'))) = COMPLETED \<and>
           finished (state_objs h' s') \<and>
           (strip (lib env) (lower (lib env) (last_message (state_objs h s))) \<notin> STOP_COMMANDS
              \<longrightarrow> new_messages (state_objs h' s') = [])"
proof (cases "strip (lib env) (lower (lib env) (last_message (state_objs h s))) \<in> STOP_COMMANDS")
  case True
  then show ?thesis
    by (simp add: chat_response_stop new_state_def update_info_def)
next
  case False
  then show ?thesis
    using assms
    by (simp add: chat_response_continue stage_step_def bind_err_def new_state_def)
qed

text \<open>
  C4. In stage \<open>CONFIRM_GOAL\<close> with a pending goal and a user, on an utterance that is not
  a stop command: when the lower-cased utterance starts with \<open>y\<close> the pending goal is
  appended to the user's goals and the stage becomes \<open>ADD_ANOTHER_GOAL\<close>; otherwise the
  user's goals are unchanged and the stage becomes \<open>GET_GOAL_TYPE\<close>. In both cases the
  pending goal is cleared.
\<close>

theorem C4_confirm_goal:
  assumes stage: "conversation_stage (info_objs h e) = CONFIRM_GOAL"
    and e: "e = extracted_information (state_objs h s)"
    and pending: "pending_goal (info_objs h e) = Some g"
    and person: "user (info_objs h e) = Some u"
    and nonstop: "strip (lib env) (lower (lib env) (last_message (state_objs h s))) \<notin> STOP_COMMANDS"
  shows "\<exists>h' s'. chat_response env h s = Inr (h', s') \<and>
           extracted_information (state_objs h' s') = e \<and>
           pending_goal (info_objs h' e) = None \<and>
           user (info_objs h' e) = Some u \<and>
           (if startswith (lower (lib env) (last_message (state_objs h s))) ''y''
            then user_objs h' u = (user_objs h u)\<lparr>goals := goals (user_objs h u) @ [Some g]\<rparr> \<and>
                 conversation_stage (info_objs h' e) = ADD_ANOTHER_GOAL
            else user_objs h' u = user_objs h u \<and>
                 conversation_stage (info_objs h' e) = GET_GOAL_TYPE)"
  using stage pending person
  by (simp add: chat_response_continue [OF nonstop] e [symmetric] stage_step_def
      confirm_goal_step_def bind_err_def new_state_def update_info_def Let_def)

theorem C3_stop_command_witness:
  "strip (lib (example_env None)) (lower (lib (example_env None)) (last_message (state_objs
      (example_heap \<lparr>user = Some 1, pending_goal = Some 2, conversation_stage = CONFIRM_GOAL\<rparr>
         NEW_CAR '' Stop '') 0))) \<in> STOP_COMMANDS \<and>
   (\<exists>h' s'. chat_response (example_env None)
      (example_heap \<lparr>user = Some 1, pending_goal = Some 2, conversation_stage = CONFIRM_GOAL\<rparr>
         NEW_CAR '' Stop '') 0 = Inr (h', s') \<and>
      finished (state_objs h' s') \<and>
      conversation_stage (info_objs h' (extracted_information (state_objs h' s'))) = COMPLETED \<and>
      new_messages (state_objs h' s') = [ai closing_text])"
proof -
  have a: "strip (lib (example_env None)) (lower (lib (example_env None)) (last_message (state_objs
      (example_heap \<lparr>user = Some 1, pending_goal = Some 2, conversation_stage = CONFIRM_GOAL\<rparr>
         NEW_CAR '' Stop '') 0))) \<in> STOP_COMMANDS"
    by (simp add: example_eval str_eval)
  show ?thesis
    using a C3_stop_command [OF a] by blast
qed

theorem C10_completed_absorbing_witness:
  "conversation_stage (info_objs
      (example_heap \<lparr>user = Some 1, pending_goal = None, conversation_stage = COMPLETED\<rparr>
         OTHER ''one more thing'') 0) = COMPLETED \<and>
   strip (lib (example_env None)) (lower (lib (example_env None)) (last_message (state_objs
      (example_heap \<lparr>user = Some 1, pending_goal = None, conversation_stage = COMPLETED\<rparr>
         OTHER ''one more thing'') 0))) \<notin> STOP_COMMANDS \<and>
   (\<exists>h' s'. chat_response (example_env None)
      (example_heap \<lparr>user = Some 1, pending_goal = None, conversation_stage = COMPLETED\<rparr>
         OTHER ''one more thing'') 0 = Inr (h', s') \<and>
      conversation_stage (info_objs h' (extracted_information (state_objs h' s'))) = COMPLETED \<and>
      finished (state_objs h' s') \<and>
      new_messages (state_objs h' s') = [])"
proof -
  let ?h = "example_heap \<lparr>user = Some 1, pending_goal = None, conversation_stage = COMPLETED\<rparr>
         OTHER ''one more thing''"
  have a: "conversation_stage (info_objs ?h (extracted_information (state_objs ?h 0))) = COMPLETED"
    by (simp add: example_eval)
  have b: "strip (lib (example_env None)) (lower (lib (example_env None)) (last_message (state_objs ?h 0))) \<notin> STOP_COMMANDS"
    by (simp add: example_eval str_eval)
  have c: "conversation_stage (info_objs ?h 0) = COMPLETED"
    by (simp add: example_eval)
  show ?thesis
    using b c C10_completed_absorbing [OF a, of "example_env None"] by blast
qed

theorem C4_confirm_goal_witness:
  "startswith (lower (lib (example_env None)) (last_message (state_objs
      (example_heap \<lparr>user = Some 1, pending_goal = Some 2, conversation_stage = CONFIRM_GOAL\<rparr>
         NEW_HOME ''Yes please'') 0))) ''y'' \<and>
   (\<exists>h' s'. chat_response (example_env None)
      (example_heap \<lparr>user = Some 1, pending_goal = Some 2, conversation_stage = CONFIRM_GOAL\<rparr>
         NEW_HOME ''Yes please'') 0 = Inr (h', s') \<and>
      pending_goal (info_objs h' 0) = None \<and>
      goals (user_objs h' 1) = [Some 2] \<and>
      conversation_stage (info_objs h' 0) = ADD_ANOTHER_GOAL)"
proof -
  let ?h = "example_heap \<lparr>user = Some 1, pending_goal = Some 2, conversation_stage = CONFIRM_GOAL\<rparr>
         NEW_HOME ''Yes please''"
  have y: "startswith (lower (lib (example_env None)) (last_message (state_objs ?h 0))) ''y''"
    by (simp add: example_eval str_eval)
  have n: "strip (lib (example_env None)) (lower (lib (example_env None)) (last_message (state_objs ?h 0))) \<notin> STOP_COMMANDS"
    by (simp add: example_eval str_eval)
  have g: "goals (user_objs ?h 1) = []"
    by (simp add: example_eval)
  have "\<exists>h' s'. chat_response (example_env None) ?h 0 = Inr (h', s') \<and>
           extracted_information (state_objs h' s') = 0 \<and>
           pending_goal (info_objs h' 0) = None \<and>
           user (info_objs h' 0) = Some 1 \<and>
           (if startswith (lower (lib (example_env None)) (last_message (state_objs ?h 0))) ''y''
            then user_objs h' 1 = (user_objs ?h 1)\<lparr>goals := goals (user_objs ?h 1) @ [Some 2]\<rparr> \<and>
                 conversation_stage (info_objs h' 0) = ADD_ANOTHER_GOAL
            else user_objs h' 1 = user_objs ?h 1 \<and>
                 conversation_stage (info_objs h' 0) = GET_GOAL_TYPE)"
    by (rule C4_confirm_goal [OF _ _ _ _ n]) (simp_all add: example_eval)
  then show ?thesis
    using y g by auto
qed


section \<open>The extraction adapter\<close>

lemma map_of_dict_set: "map_of (dict_set kvs k x) = (map_of kvs)(k \<mapsto> x)"
  by (induction kvs) (auto simp: fun_eq_iff)

lemma load_response_None:
  "load_response env p = None \<longleftrightarrow>
     (llm env p = None \<or> llm env p = Some [] \<or>
      (\<exists>r. llm env p = Some r \<and> json_loads env (strip (lib env) (unfence r)) = None))"
  by (auto simp: load_response_def split: option.splits)

lemma load_response_Some:
  "llm env p = Some r \<Longrightarrow> r \<noteq> [] \<Longrightarrow>
   json_loads env (strip (lib env) (unfence r)) = Some v \<Longrightarrow>
   load_response env p = Some v"
  by (simp add: load_response_def)

lemma validate_date_object:
  assumes "date_key = (if map_of kvs ''purchase_date'' \<noteq> None then ''purchase_date''
                       else ''target_date'')"
    and "map_of kvs date_key = Some v"
  shows "validate_date env (JObject kvs) =
           (case parse_date_value (lib env) (today env) v of
              Inr (Some d) \<Rightarrow> Some (JObject (dict_set kvs date_key (JString (isoformat d))))
            | r \<Rightarrow> None)"
  using assms
  by (auto simp: validate_date_def Let_def split: sum.splits option.splits if_splits)

lemma validate_date_no_key:
  assumes "map_of kvs ''purchase_date'' = None" "map_of kvs ''target_date'' = None"
  shows "validate_date env (JObject kvs) = Some (JObject kvs)"
  using assms by (simp add: validate_date_def)

lemmas date_eval = parse_date_def relative_date_def search_digits_def ascii_search_digits_def
  int_of_token_def ascii_int_def strptime_def ascii_strptime_def
  match_m_def match_d_def match_name_def full_month_names_def abbr_month_names_def
  fmt_Y_m_d_def fmt_d_m_Y_def fmt_m_d_Y_def fmt_B_d_Y_def fmt_b_d_Y_def fmt_B_Y_def
  fmt_b_Y_def month_year_re_def ascii_month_year_re_def bare_year_re_def
  ascii_bare_year_re_def mk_date_def valid_date_def
  days_in_month_def is_leap_def date_or_ValueError_def

lemma parse_someday: "parse_date L now ''someday'' = Inr None"
  by (simp add: date_eval str_eval)

lemma parse_2027:
  "parse_date L now ''2027-06-15'' = Inr (Some \<lparr>year = 2027, month = 6, day = 15\<rparr>)"
  by (simp add: date_eval str_eval)

lemma isoformat_2027: "isoformat \<lparr>year = 2027, month = 6, day = 15\<rparr> = ''2027-06-15''"
  by (simp add: isoformat_def zfill4_def zfill2_def digit_char_def digits_def)

lemmas text_eval = quoted_def identity_text_def london_text_def car_someday_text_def
  trip_text_def two_dates_text_def truncated_text_def

lemmas fields_eval = identity_fields_def london_fields_def car_someday_fields_def
  trip_fields_def two_dates_fields_def

lemma unfence_examples:
  "unfence identity_text = identity_text"
  "unfence london_text = london_text"
  "unfence car_someday_text = car_someday_text"
  "unfence trip_text = trip_text"
  "unfence two_dates_text = two_dates_text"
  "unfence truncated_text = truncated_text"
  by (simp_all add: unfence_def text_eval str_eval)

lemma strip_examples:
  "strip L identity_text = identity_text"
  "strip L london_text = london_text"
  "strip L car_someday_text = car_someday_text"
  "strip L trip_text = trip_text"
  "strip L two_dates_text = two_dates_text"
  "strip L truncated_text = truncated_text"
  by (simp_all add: text_eval str_eval)

lemma json_loads_examples:
  "example_json_loads identity_text = Some identity_fields"
  "example_json_loads london_text = Some london_fields"
  "example_json_loads car_someday_text = Some car_someday_fields"
  "example_json_loads trip_text = Some trip_fields"
  "example_json_loads two_dates_text = Some two_dates_fields"
  "example_json_loads truncated_text = None"
  by (simp_all add: example_json_loads_def text_eval)

lemma example_env_sel:
  "lib (example_env r) = example_lib"
  "llm (example_env r) p = r"
  "json_loads (example_env r) = example_json_loads"
  "today (example_env r) = \<lparr>year = 2026, month = 11, day = 3\<rparr>"
  by (simp_all add: example_env_def)

text \<open>
  C5, amended. The field that is validated does not depend on the goal kind: it is
  \<open>purchase_date\<close> when the response has that key, and \<open>target_date\<close> only when it has
  not. For every goal
  kind, when the response of the extraction service decodes to an object that has one of
  the two keys: \<open>extract_goal_details\<close> returns none when \<open>parse_date\<close> fails on the value
  of the validated field (returns none or raises), whatever the other fields hold; and when
  \<open>parse_date\<close> succeeds it returns the fields with the validated field replaced by the
  normalized date.
\<close>

theorem C5_date_validation:
  assumes "llm env (goal_prompt kind utterance (today env)) = Some response"
    and "response \<noteq> []"
    and "json_loads env (strip (lib env) (unfence response)) = Some (JObject kvs)"
    and "date_key = (if map_of kvs ''purchase_date'' \<noteq> None then ''purchase_date''
                     else ''target_date'')"
    and "map_of kvs date_key = Some v"
  shows "case parse_date_value (lib env) (today env) v of
           Inr (Some d) \<Rightarrow>
             (\<exists>fields. extract_goal_details env utterance kind = Some (JObject fields) \<and>
                map_of fields = (map_of kvs)(date_key \<mapsto> JString (isoformat d)))
         | r \<Rightarrow> extract_goal_details env utterance kind = None"
proof -
  have "extract_goal_details env utterance kind = validate_date env (JObject kvs)"
    using load_response_Some [OF assms(1-3)] by (simp add: extract_goal_details_def)
  then show ?thesis
    using validate_date_object [OF assms(4,5), of env]
    by (auto simp: map_of_dict_set split: sum.splits option.splits)
qed

theorem C5_date_validation_witness:
  "extract_goal_details (example_env (Some car_someday_text))
     ''a Tesla for 40k someday'' NEW_CAR = None \<and>
   (\<exists>fields. extract_goal_details (example_env (Some trip_text)) ''a trip'' OTHER
                = Some (JObject fields) \<and>
     map_of fields ''target_date'' = Some (JString ''2027-06-15''))"
proof -
  let ?e1 = "example_env (Some car_someday_text)"
  let ?e2 = "example_env (Some trip_text)"
  let ?k1 = "[(''car_type'', JString ''Tesla''), (''car_price'', JInt 40000),
              (''purchase_date'', JString ''someday'')]"
  let ?k2 = "[(''description'', JString ''trip''), (''target_date'', JString ''2027-06-15'')]"
  have p1: "parse_date_value (lib ?e1) (today ?e1) (JString ''someday'') = Inr None"
    by (simp add: parse_date_value_def parse_someday)
  have p2: "parse_date_value (lib ?e2) (today ?e2) (JString ''2027-06-15'')
              = Inr (Some \<lparr>year = 2027, month = 6, day = 15\<rparr>)"
    by (simp add: parse_date_value_def parse_2027)
  have l1: "llm ?e1 (goal_prompt NEW_CAR ''a Tesla for 40k someday'' (today ?e1))
              = Some car_someday_text"
    by (simp add: example_env_sel)
  have l2: "llm ?e2 (goal_prompt OTHER ''a trip'' (today ?e2)) = Some trip_text"
    by (simp add: example_env_sel)
  have n1: "car_someday_text \<noteq> []" and n2: "trip_text \<noteq> []"
    by (simp_all add: text_eval)
  have j1: "json_loads ?e1 (strip (lib ?e1) (unfence car_someday_text)) = Some (JObject ?k1)"
    by (simp add: example_env_sel unfence_examples strip_examples json_loads_examples
          car_someday_fields_def)
  have j2: "json_loads ?e2 (strip (lib ?e2) (unfence trip_text)) = Some (JObject ?k2)"
    by (simp add: example_env_sel unfence_examples strip_examples json_loads_examples
          trip_fields_def)
  have 1: "extract_goal_details ?e1 ''a Tesla for 40k someday'' NEW_CAR = None"
    using C5_date_validation [OF l1 n1 j1 refl, of "JString ''someday''"]
    by (simp add: p1)
  have 2: "\<exists>fields. extract_goal_details ?e2 ''a trip'' OTHER = Some (JObject fields) \<and>
     map_of fields ''target_date'' = Some (JString ''2027-06-15'')"
    using C5_date_validation [OF l2 n2 j2 refl, of "JString ''2027-06-15''"]
    by (auto simp add: p2 isoformat_2027)
  show ?thesis using 1 2 by blast
qed

text \<open>
  C5, as stated, fails when a response has both keys: the date-bearing field of a goal of
  kind \<open>OTHER\<close> is \<open>target_date\<close>, and the one validated is \<open>purchase_date\<close>. Here is a
  response to the prompt for a goal of kind \<open>OTHER\<close> whose date-bearing field
  \<open>target_date\<close> does not parse, next to a \<open>purchase_date\<close> that does: \<open>parse_date\<close> returns
  none on \<open>someday\<close>, and \<open>extract_goal_details\<close> returns the fields, the unparsed
  \<open>target_date\<close> among them.
\<close>

theorem C5_counterexample:
  "json_loads (example_env (Some two_dates_text)) two_dates_text
     = Some (JObject [(''description'', JString ''trip''),
                      (''purchase_date'', JString ''2027-06-15''),
                      (''target_date'', JString ''someday'')]) \<and>
   parse_date_value (lib (example_env (Some two_dates_text)))
     (today (example_env (Some two_dates_text))) (JString ''someday'') = Inr None \<and>
   extract_goal_details (example_env (Some two_dates_text)) ''a trip'' OTHER
     = Some (JObject [(''description'', JString ''trip''),
                      (''purchase_date'', JString ''2027-06-15''),
                      (''target_date'', JString ''someday'')])"
proof -
  let ?e = "example_env (Some two_dates_text)"
  have k: "llm ?e (goal_prompt OTHER ''a trip'' (today ?e)) = Some two_dates_text"
    by (simp add: example_env_sel)
  have n: "two_dates_text \<noteq> []"
    by (simp add: text_eval)
  have j: "json_loads ?e (strip (lib ?e) (unfence two_dates_text)) = Some two_dates_fields"
    by (simp add: example_env_sel unfence_examples strip_examples json_loads_examples)
  have l: "load_response ?e (goal_prompt OTHER ''a trip'' (today ?e)) = Some two_dates_fields"
    by (rule load_response_Some [OF k n j])
  have p: "parse_date_value (lib ?e) (today ?e) (JString ''2027-06-15'')
              = Inr (Some \<lparr>year = 2027, month = 6, day = 15\<rparr>)"
    by (simp add: parse_date_value_def parse_2027)
  have v: "validate_date ?e two_dates_fields = Some two_dates_fields"
    unfolding two_dates_fields_def
    by (simp add: validate_date_object [of "''purchase_date''" _ "JString ''2027-06-15''"] p
          isoformat_2027)
  have "extract_goal_details ?e ''a trip'' OTHER = Some two_dates_fields"
    by (simp add: extract_goal_details_def l v)
  then show ?thesis
    by (simp add: example_env_sel json_loads_examples two_dates_fields_def
          parse_date_value_def parse_someday)
qed


section \<open>Evaluation of the engine on concrete runs\<close>

lemma round64_zero: "round64 0 = Finite 0"
  by (simp add: round64_def)

lemma load_response_examples:
  "load_response (example_env None) p = None"
  "load_response (example_env (Some identity_text)) p = Some identity_fields"
  "load_response (example_env (Some london_text)) p = Some london_fields"
  by (simp_all add: load_response_def example_env_sel unfence_examples strip_examples
        json_loads_examples)
     (simp_all add: text_eval)

lemmas run_eval = chat_response_def stage_step_def get_user_info_step_def
  get_goal_type_step_def get_goal_details_step_def confirm_goal_step_def
  add_another_goal_step_def extract_user_info_def extract_goal_details_def
  load_response_examples validate_date_def build_information_def py_float_def round64_zero
  bind_err_def new_state_def new_user_def new_goal_def
  update_info_def say_def snapshot_after_def initial_heap_def initial_state_def
  initial_information_def parse_date_value_def Let_def
  example_env_sel example_heap_def example_user_def last_message_def STOP_COMMANDS_def

section \<open>Malformed and dateless extractions\<close>

text \<open>
  C8, as stated, fails: in a stage that does not consult the extraction service the stage
  changes whatever the service would answer (here \<open>GET_GOAL_TYPE\<close> with every call
  failing), a stop command ends the conversation, and \<open>GET_GOAL_DETAILS\<close> without a
  pending goal raises.
\<close>

theorem C8_counterexample:
  "llm (example_env None) = (\<lambda>p. None) \<and>
   map_option conversation_stage (snapshot_after (chat_response (example_env None)
     (example_heap \<lparr>user = Some 1, pending_goal = None, conversation_stage = GET_GOAL_TYPE\<rparr>
        OTHER ''home'') 0)) = Some GET_GOAL_DETAILS \<and>
   map_option conversation_stage (snapshot_after (chat_response (example_env None)
     (example_heap initial_information OTHER ''stop'') 0)) = Some COMPLETED \<and>
   chat_response (example_env None)
     (example_heap \<lparr>user = Some 1, pending_goal = None, conversation_stage = GET_GOAL_DETAILS\<rparr>
        OTHER ''a flat in London'') 0 = Inl AttributeError"
  by (simp add: fun_eq_iff run_eval str_eval)

lemma get_user_info_step_malformed:
  assumes "load_response env (UserInfoPrompt utterance) = None"
  shows "get_user_info_step env h e utterance = Inr (h, [ai ask_identity_text])"
  using assms by (simp add: get_user_info_step_def extract_user_info_def bind_err_def)

lemma get_goal_details_step_malformed:
  assumes "pending_goal (info_objs h e) = Some g"
    and "load_response env (goal_prompt (goal_type (goal_objs h g)) utterance (today env)) = None"
  shows "get_goal_details_step env h e utterance
           = Inr (h, [ai (retry_text (goal_type (goal_objs h g)))])"
  using assms by (simp add: get_goal_details_step_def extract_goal_details_def)

text \<open>
  C8, amended. In a turn that consults the extraction service (an utterance that is not a
  stop command, in stage \<open>GET_USER_INFO\<close>, or in stage \<open>GET_GOAL_DETAILS\<close> with a pending
  goal), when the call fails, the response is empty or it does not parse as JSON,
  \<open>chat_response\<close> raises nothing, leaves the snapshot (so the stage) as it was and the
  new messages are exactly one re-prompt.
\<close>

theorem C8_malformed_response:
  assumes e: "e = extracted_information (state_objs h s)"
    and utterance: "utterance = last_message (state_objs h s)"
    and nonstop: "strip (lib env) (lower (lib env) utterance) \<notin> STOP_COMMANDS"
    and consulted:
      "conversation_stage (info_objs h e) = GET_USER_INFO \<and>
         p = UserInfoPrompt utterance \<and> again = ask_identity_text
       \<or> conversation_stage (info_objs h e) = GET_GOAL_DETAILS \<and>
         pending_goal (info_objs h e) = Some g \<and>
         p = goal_prompt (goal_type (goal_objs h g)) utterance (today env) \<and>
         again = retry_text (goal_type (goal_objs h g))"
    and malformed:
      "llm env p = None \<or> llm env p = Some [] \<or>
       (\<exists>r. llm env p = Some r \<and> json_loads env (strip (lib env) (unfence r)) = None)"
  shows "\<exists>h' s'. chat_response env h s = Inr (h', s') \<and>
           extracted_information (state_objs h' s') = e \<and>
           info_objs h' e = info_objs h e \<and>
           new_messages (state_objs h' s') = [ai again]"
proof -
  have none: "load_response env p = None"
    using malformed by (simp add: load_response_None)
  have step: "stage_step env h e utterance = Inr (h, [ai again])"
    using consulted none
    by (auto simp: stage_step_def get_user_info_step_malformed get_goal_details_step_malformed)
  show ?thesis
    using nonstop step
    by (simp add: chat_response_continue e [symmetric] utterance [symmetric] bind_err_def
        new_state_def)
qed

theorem C8_malformed_response_witness:
  "(\<exists>h' s'. chat_response (example_env (Some truncated_text))
       (example_heap \<lparr>user = Some 1, pending_goal = Some 2,
                       conversation_stage = GET_GOAL_DETAILS\<rparr> NEW_CAR ''a Tesla'') 0
       = Inr (h', s') \<and>
     info_objs h' 0 = \<lparr>user = Some 1, pending_goal = Some 2,
                         conversation_stage = GET_GOAL_DETAILS\<rparr> \<and>
     new_messages (state_objs h' s') = [ai retry_car_text]) \<and>
   (\<exists>h' s'. chat_response (example_env None)
       (example_heap initial_information OTHER ''I am John'') 0 = Inr (h', s') \<and>
     info_objs h' 0 = initial_information \<and>
     new_messages (state_objs h' s') = [ai ask_identity_text])"
proof -
  let ?env = "example_env (Some truncated_text)"
  let ?h = "example_heap \<lparr>user = Some 1, pending_goal = Some 2,
                       conversation_stage = GET_GOAL_DETAILS\<rparr> NEW_CAR ''a Tesla''"
  let ?k = "example_heap initial_information OTHER ''I am John''"
  have m: "llm ?env (CarPrompt ''a Tesla'' \<lparr>year = 2026, month = 11, day = 3\<rparr>) = None \<or>
       llm ?env (CarPrompt ''a Tesla'' \<lparr>year = 2026, month = 11, day = 3\<rparr>) = Some [] \<or>
       (\<exists>r. llm ?env (CarPrompt ''a Tesla'' \<lparr>year = 2026, month = 11, day = 3\<rparr>) = Some r \<and>
            json_loads ?env (strip (lib ?env) (unfence r)) = None)"
    by (simp add: example_env_sel unfence_examples strip_examples json_loads_examples)
  have 1: "\<exists>h' s'. chat_response ?env ?h 0 = Inr (h', s') \<and>
           extracted_information (state_objs h' s') = 0 \<and>
           info_objs h' 0 = info_objs ?h 0 \<and>
           new_messages (state_objs h' s') = [ai retry_car_text]"
    by (rule C8_malformed_response [where utterance = "''a Tesla''" and g = 2
          and p = "CarPrompt ''a Tesla'' \<lparr>year = 2026, month = 11, day = 3\<rparr>", OF _ _ _ _ m])
      (simp_all add: example_eval str_eval goal_prompt_def retry_text_def)
  have 2: "\<exists>h' s'. chat_response (example_env None) ?k 0 = Inr (h', s') \<and>
           extracted_information (state_objs h' s') = 0 \<and>
           info_objs h' 0 = info_objs ?k 0 \<and>
           new_messages (state_objs h' s') = [ai ask_identity_text]"
    by (rule C8_malformed_response [where utterance = "''I am John''"
          and p = "UserInfoPrompt ''I am John''"])
      (simp_all add: example_eval str_eval initial_information_def)
  have i: "info_objs ?h 0 = \<lparr>user = Some 1, pending_goal = Some 2,
                         conversation_stage = GET_GOAL_DETAILS\<rparr>"
    "info_objs ?k 0 = initial_information"
    by (simp_all add: example_heap_def)
  from 1 obtain h1 s1 where "chat_response ?env ?h 0 = Inr (h1, s1)"
    "info_objs h1 0 = info_objs ?h 0" "new_messages (state_objs h1 s1) = [ai retry_car_text]"
    by blast
  moreover from 2 obtain h2 s2 where "chat_response (example_env None) ?k 0 = Inr (h2, s2)"
    "info_objs h2 0 = info_objs ?k 0" "new_messages (state_objs h2 s2) = [ai ask_identity_text]"
    by blast
  ultimately show ?thesis
    unfolding i by blast
qed

lemma build_information_defaults:
  assumes "map_of kvs ''purchase_date'' = None" "map_of kvs ''target_date'' = None"
    and "map_of kvs ''house_price'' = None" "map_of kvs ''deposit_amount'' = None"
    and "map_of kvs ''car_price'' = None" "map_of kvs ''amount_required'' = None"
  shows "build_information env kind (JObject kvs) =
    Inr (case kind of
           NEW_HOME \<Rightarrow> NewHomeGoalInformation
             (case map_of kvs ''location'' of None \<Rightarrow> JString [] | Some x \<Rightarrow> x)
             (Finite 0) (Finite 0) None
         | NEW_CAR \<Rightarrow> NewCarInformation
             (case map_of kvs ''car_type'' of None \<Rightarrow> JString [] | Some x \<Rightarrow> x)
             (Finite 0) None
         | OTHER \<Rightarrow> OtherGoalInformation
             (case map_of kvs ''description'' of None \<Rightarrow> JString [] | Some x \<Rightarrow> x)
             (Finite 0) None)"
  using assms
  by (cases kind)
    (simp_all add: build_information_def bind_err_def py_float_def parse_date_value_def
      round64_zero split: option.split)

text \<open>
  Every response that decodes to a non-empty object with neither \<open>purchase_date\<close> nor
  \<open>target_date\<close> (and none of the amounts) passes \<open>extract_goal_details\<close> unchanged, and a
  turn in stage \<open>GET_GOAL_DETAILS\<close> with it moves to \<open>CONFIRM_GOAL\<close> with the date of the
  pending goal none and the amounts zero.
\<close>

lemma goal_without_date:
  assumes e: "e = extracted_information (state_objs h s)"
    and utterance: "utterance = last_message (state_objs h s)"
    and nonstop: "strip (lib env) (lower (lib env) utterance) \<notin> STOP_COMMANDS"
    and stage: "conversation_stage (info_objs h e) = GET_GOAL_DETAILS"
    and pending: "pending_goal (info_objs h e) = Some g"
    and kind: "kind = goal_type (goal_objs h g)"
    and response: "llm env (goal_prompt kind utterance (today env)) = Some r" "r \<noteq> []"
      "json_loads env (strip (lib env) (unfence r)) = Some (JObject kvs)"
    and fields: "kvs \<noteq> []"
    and no_date: "map_of kvs ''purchase_date'' = None" "map_of kvs ''target_date'' = None"
    and no_amount: "map_of kvs ''house_price'' = None" "map_of kvs ''deposit_amount'' = None"
      "map_of kvs ''car_price'' = None" "map_of kvs ''amount_required'' = None"
  shows "extract_goal_details env utterance kind = Some (JObject kvs) \<and>
         (\<exists>h' s'. chat_response env h s = Inr (h', s') \<and>
            extracted_information (state_objs h' s') = e \<and>
            conversation_stage (info_objs h' e) = CONFIRM_GOAL \<and>
            pending_goal (info_objs h' e) = Some g \<and>
            goal_specific_information (goal_objs h' g) =
              Some (case kind of
                      NEW_HOME \<Rightarrow> NewHomeGoalInformation
                        (case map_of kvs ''location'' of None \<Rightarrow> JString [] | Some x \<Rightarrow> x)
                        (Finite 0) (Finite 0) None
                    | NEW_CAR \<Rightarrow> NewCarInformation
                        (case map_of kvs ''car_type'' of None \<Rightarrow> JString [] | Some x \<Rightarrow> x)
                        (Finite 0) None
                    | OTHER \<Rightarrow> OtherGoalInformation
                        (case map_of kvs ''description'' of None \<Rightarrow> JString [] | Some x \<Rightarrow> x)
                        (Finite 0) None))"
proof -
  have x: "extract_goal_details env utterance kind = Some (JObject kvs)"
    using load_response_Some [OF response] validate_date_no_key [OF no_date]
    by (simp add: extract_goal_details_def)
  have b: "build_information env kind (JObject kvs) = Inr (case kind of
           NEW_HOME \<Rightarrow> NewHomeGoalInformation
             (case map_of kvs ''location'' of None \<Rightarrow> JString [] | Some x \<Rightarrow> x)
             (Finite 0) (Finite 0) None
         | NEW_CAR \<Rightarrow> NewCarInformation
             (case map_of kvs ''car_type'' of None \<Rightarrow> JString [] | Some x \<Rightarrow> x)
             (Finite 0) None
         | OTHER \<Rightarrow> OtherGoalInformation
             (case map_of kvs ''description'' of None \<Rightarrow> JString [] | Some x \<Rightarrow> x)
             (Finite 0) None)"
    by (rule build_information_defaults [OF no_date no_amount])
  have "\<exists>h' s'. chat_response env h s = Inr (h', s') \<and>
            extracted_information (state_objs h' s') = e \<and>
            conversation_stage (info_objs h' e) = CONFIRM_GOAL \<and>
            pending_goal (info_objs h' e) = Some g \<and>
            goal_specific_information (goal_objs h' g) = Some (case kind of
           NEW_HOME \<Rightarrow> NewHomeGoalInformation
             (case map_of kvs ''location'' of None \<Rightarrow> JString [] | Some x \<Rightarrow> x)
             (Finite 0) (Finite 0) None
         | NEW_CAR \<Rightarrow> NewCarInformation
             (case map_of kvs ''car_type'' of None \<Rightarrow> JString [] | Some x \<Rightarrow> x)
             (Finite 0) None
         | OTHER \<Rightarrow> OtherGoalInformation
             (case map_of kvs ''description'' of None \<Rightarrow> JString [] | Some x \<Rightarrow> x)
             (Finite 0) None)"
    using nonstop stage pending fields x b
    by (simp add: chat_response_continue e [symmetric] utterance [symmetric] kind [symmetric]
        stage_step_def get_goal_details_step_def bind_err_def new_state_def update_info_def
        Let_def)
  with x show ?thesis by blast
qed

text \<open>
  C9. There is a response that parses as JSON and has neither \<open>purchase_date\<close> nor
  \<open>target_date\<close>, here the text \<open>{"location": "London"}\<close> in answer to the prompt for a new
  home: \<open>extract_goal_details\<close> returns its fields, and the turn in stage
  \<open>GET_GOAL_DETAILS\<close> with it returns with the stage \<open>CONFIRM_GOAL\<close>, the pending goal kept,
  its date none and its two amounts, which the response does not give, \<open>0.0\<close>.
\<close>

theorem C9_goal_without_date:
  "json_loads (example_env (Some london_text)) london_text
     = Some (JObject [(''location'', JString ''London'')]) \<and>
   extract_goal_details (example_env (Some london_text)) ''a flat in London'' NEW_HOME
     = Some (JObject [(''location'', JString ''London'')]) \<and>
   (\<exists>h' s'. chat_response (example_env (Some london_text))
       (example_heap \<lparr>user = Some 1, pending_goal = Some 2,
                       conversation_stage = GET_GOAL_DETAILS\<rparr> NEW_HOME ''a flat in London'') 0
       = Inr (h', s') \<and>
     conversation_stage (info_objs h' (extracted_information (state_objs h' s')))
       = CONFIRM_GOAL \<and>
     pending_goal (info_objs h' (extracted_information (state_objs h' s'))) = Some 2 \<and>
     goal_specific_information (goal_objs h' 2)
       = Some (NewHomeGoalInformation (JString ''London'') (Finite 0) (Finite 0) None))"
proof -
  let ?env = "example_env (Some london_text)"
  let ?h = "example_heap \<lparr>user = Some 1, pending_goal = Some 2,
                       conversation_stage = GET_GOAL_DETAILS\<rparr> NEW_HOME ''a flat in London''"
  let ?kvs = "[(''location'', JString ''London'')]"
  have j: "json_loads ?env (strip (lib ?env) (unfence london_text)) = Some (JObject ?kvs)"
    by (simp add: example_env_sel unfence_examples strip_examples json_loads_examples
          london_fields_def)
  have j': "json_loads ?env london_text = Some (JObject ?kvs)"
    by (simp add: example_env_sel json_loads_examples london_fields_def)
  have n: "london_text \<noteq> []"
    by (simp add: text_eval)
  have k: "llm ?env (goal_prompt NEW_HOME ''a flat in London'' (today ?env)) = Some london_text"
    by (simp add: example_env_sel)
  have "extract_goal_details ?env ''a flat in London'' NEW_HOME = Some (JObject ?kvs) \<and>
         (\<exists>h' s'. chat_response ?env ?h 0 = Inr (h', s') \<and>
            extracted_information (state_objs h' s') = 0 \<and>
            conversation_stage (info_objs h' 0) = CONFIRM_GOAL \<and>
            pending_goal (info_objs h' 0) = Some 2 \<and>
            goal_specific_information (goal_objs h' 2) =
              Some (case NEW_HOME of
                      NEW_HOME \<Rightarrow> NewHomeGoalInformation
                        (case map_of ?kvs ''location'' of None \<Rightarrow> JString [] | Some x \<Rightarrow> x)
                        (Finite 0) (Finite 0) None
                    | NEW_CAR \<Rightarrow> NewCarInformation
                        (case map_of ?kvs ''car_type'' of None \<Rightarrow> JString [] | Some x \<Rightarrow> x)
                        (Finite 0) None
                    | OTHER \<Rightarrow> OtherGoalInformation
                        (case map_of ?kvs ''description'' of None \<Rightarrow> JString [] | Some x \<Rightarrow> x)
                        (Finite 0) None))"
    by (rule goal_without_date [where utterance = "''a flat in London''" and r = london_text,
          OF _ _ _ _ _ _ k n j])
      (simp_all add: example_eval str_eval)
  then have a: "extract_goal_details ?env ''a flat in London'' NEW_HOME = Some (JObject ?kvs)"
    and b: "\<exists>h' s'. chat_response ?env ?h 0 = Inr (h', s') \<and>
            extracted_information (state_objs h' s') = 0 \<and>
            conversation_stage (info_objs h' 0) = CONFIRM_GOAL \<and>
            pending_goal (info_objs h' 0) = Some 2 \<and>
            goal_specific_information (goal_objs h' 2)
              = Some (NewHomeGoalInformation (JString ''London'') (Finite 0) (Finite 0) None)"
    by simp_all
  from b obtain h' s' where "chat_response ?env ?h 0 = Inr (h', s')"
    "conversation_stage (info_objs h' (extracted_information (state_objs h' s'))) = CONFIRM_GOAL"
    "pending_goal (info_objs h' (extracted_information (state_objs h' s'))) = Some 2"
    "goal_specific_information (goal_objs h' 2)
       = Some (NewHomeGoalInformation (JString ''London'') (Finite 0) (Finite 0) None)"
    by auto
  with a j' show ?thesis by blast
qed


section \<open>The pending goal over a conversation\<close>

lemma new_state_info [simp]: "info_objs (fst (new_state h st)) = info_objs h"
  by (simp add: new_state_def)

lemma get_user_info_step_snapshot:
  assumes "get_user_info_step env h e u = Inr (h1, ms)"
  shows "info_objs h1 e = info_objs h e \<or>
         (\<exists>r. info_objs h1 e = (info_objs h e)\<lparr>user := Some r, conversation_stage := GET_GOAL_TYPE\<rparr>)"
  using assms
  by (auto simp: get_user_info_step_def bind_err_def new_user_def update_info_def Let_def
      split: sum.splits if_splits)

lemma get_goal_type_step_snapshot:
  assumes "get_goal_type_step env h e u = (h1, ms)"
  shows "\<exists>r. info_objs h1 e
           = (info_objs h e)\<lparr>pending_goal := Some r, conversation_stage := GET_GOAL_DETAILS\<rparr>"
  using assms
  by (auto simp: get_goal_type_step_def new_goal_def update_info_def Let_def split: if_splits)

lemma get_goal_details_step_snapshot:
  assumes "get_goal_details_step env h e u = Inr (h1, ms)"
  shows "pending_goal (info_objs h e) \<noteq> None \<and>
         (info_objs h1 e = info_objs h e \<or>
          info_objs h1 e = (info_objs h e)\<lparr>conversation_stage := CONFIRM_GOAL\<rparr>)"
  using assms
  by (auto simp: get_goal_details_step_def bind_err_def update_info_def Let_def
      split: sum.splits option.splits if_splits)

lemma confirm_goal_step_snapshot:
  assumes "confirm_goal_step env h e u = Inr (h1, ms)"
  shows "info_objs h1 e = (info_objs h e)\<lparr>pending_goal := None, conversation_stage := ADD_ANOTHER_GOAL\<rparr>
       \<or> info_objs h1 e = (info_objs h e)\<lparr>pending_goal := None, conversation_stage := GET_GOAL_TYPE\<rparr>"
  using assms
  by (auto simp: confirm_goal_step_def update_info_def Let_def split: option.splits if_splits)

lemma add_another_goal_step_snapshot:
  assumes "add_another_goal_step env h e u = (h1, ms)"
  shows "info_objs h1 e = (info_objs h e)\<lparr>conversation_stage := GET_GOAL_TYPE\<rparr>
       \<or> info_objs h1 e = (info_objs h e)\<lparr>conversation_stage := COMPLETED\<rparr>"
  using assms
  by (auto simp: add_another_goal_step_def update_info_def split: if_splits)

lemma stage_step_invariant:
  assumes "stage_step env h e u = Inr (h1, ms)"
    and "conversation_stage (info_objs h e) = COMPLETED \<or> pending_iff_capture (info_objs h e)"
  shows "conversation_stage (info_objs h1 e) = COMPLETED \<or> pending_iff_capture (info_objs h1 e)"
proof (cases "conversation_stage (info_objs h e)")
  case GET_USER_INFO
  then show ?thesis
    using assms get_user_info_step_snapshot [of env h e u h1 ms]
    by (auto simp: stage_step_def pending_iff_capture_def)
next
  case GET_GOAL_TYPE
  then show ?thesis
    using assms get_goal_type_step_snapshot [of env h e u h1 ms]
    by (auto simp: stage_step_def pending_iff_capture_def)
next
  case GET_GOAL_DETAILS
  then show ?thesis
    using assms get_goal_details_step_snapshot [of env h e u h1 ms]
    by (auto simp: stage_step_def pending_iff_capture_def)
next
  case CONFIRM_GOAL
  then show ?thesis
    using assms confirm_goal_step_snapshot [of env h e u h1 ms]
    by (auto simp: stage_step_def pending_iff_capture_def)
next
  case ADD_ANOTHER_GOAL
  then show ?thesis
    using assms add_another_goal_step_snapshot [of env h e u h1 ms]
    by (auto simp: stage_step_def pending_iff_capture_def)
next
  case COMPLETED
  then show ?thesis
    using assms by (auto simp: stage_step_def)
qed

lemma chat_response_invariant:
  assumes "chat_response env h s = Inr (h', s')"
    and "e = extracted_information (state_objs h s)"
    and "conversation_stage (info_objs h e) = COMPLETED \<or> pending_iff_capture (info_objs h e)"
  shows "conversation_stage (info_objs h' e) = COMPLETED \<or> pending_iff_capture (info_objs h' e)"
proof (cases "strip (lib env) (lower (lib env) (last_message (state_objs h s))) \<in> STOP_COMMANDS")
  case True
  then show ?thesis
    using assms by (auto simp: chat_response_stop new_state_def update_info_def)
next
  case False
  then obtain h1 ms where 1: "stage_step env h e (last_message (state_objs h s)) = Inr (h1, ms)"
    and 2: "info_objs h' = info_objs h1"
    using assms
    by (auto simp: chat_response_continue bind_err_def new_state_def split: sum.splits)
  show ?thesis
    using stage_step_invariant [OF 1 assms(3)] by (simp add: 2)
qed

lemma chat_response_snapshot:
  assumes "chat_response env h s = Inr (h', s')"
  shows "extracted_information (state_objs h' s') = extracted_information (state_objs h s)"
proof (cases "strip (lib env) (lower (lib env) (last_message (state_objs h s))) \<in> STOP_COMMANDS")
  case True
  then show ?thesis
    using assms by (auto simp: chat_response_stop new_state_def)
next
  case False
  then show ?thesis
    using assms
    by (auto simp: chat_response_continue bind_err_def new_state_def split: sum.splits)
qed

text \<open>
  C1, amended. In every reachable state whose stage is not \<open>COMPLETED\<close>, the pending goal
  is non-null iff the stage is \<open>GET_GOAL_DETAILS\<close> or \<open>CONFIRM_GOAL\<close>.
\<close>

theorem C1_pending_goal_invariant:
  assumes "reachable h e"
  shows "conversation_stage (info_objs h e) = COMPLETED \<or> pending_iff_capture (info_objs h e)"
  using assms
proof (induction rule: reachable.induct)
  case (initial h e)
  then show ?case
    by (simp add: initial_information_def pending_iff_capture_def)
next
  case (turn h e st env s h' s')
  show ?case
    by (rule chat_response_invariant [OF turn(3)]) (simp_all add: turn)
qed

lemma reachable_conversation:
  assumes "conversation env h s us = Inr (h', s')" "reachable h e"
    "extracted_information (state_objs h s) = e"
  shows "reachable h' e \<and> extracted_information (state_objs h' s') = e"
  using assms
proof (induction us arbitrary: h s)
  case Nil
  then show ?case by simp
next
  case (Cons u us)
  from Cons.prems(1) obtain h1 s1
    where 1: "chat_response env (say h s u) s = Inr (h1, s1)"
      and 2: "conversation env h1 s1 us = Inr (h', s')"
    by (auto simp: bind_err_def split: sum.splits)
  have 3: "extracted_information (state_objs (say h s u) s) = e"
    using Cons.prems(3) by (simp add: say_def)
  have "reachable h1 e"
  proof (rule reachable.turn)
    show "reachable h e" by fact
    show "chat_response env (h\<lparr>state_objs := (state_objs h)
            (s := (state_objs h s)\<lparr>messages := messages (state_objs h s)
                                       @ [\<lparr>msg_text = u, sender = USER\<rparr>]\<rparr>)\<rparr>) s
          = Inr (h1, s1)"
      using 1 by (simp add: say_def)
    show "extracted_information ((state_objs h s)\<lparr>messages := messages (state_objs h s)
            @ [\<lparr>msg_text = u, sender = USER\<rparr>]\<rparr>) = e"
      using Cons.prems(3) by simp
  qed
  moreover have "extracted_information (state_objs h1 s1) = e"
    using chat_response_snapshot [OF 1] 3 by simp
  ultimately show ?case
    using Cons.IH [OF 2] by simp
qed

lemma stop_during_capture:
  "snapshot_after (conversation (example_env (Some identity_text))
     initial_heap 0 [''John Smith, born 1990-05-01, john@example.com'', ''home'', ''stop''])
   = Some \<lparr>user = Some 1, pending_goal = Some 3, conversation_stage = COMPLETED\<rparr>"
  by (simp add: run_eval str_eval date_eval identity_fields_def)

lemma capture_run:
  "snapshot_after (conversation (example_env (Some identity_text))
     initial_heap 0 [''John Smith, born 1990-05-01, john@example.com'', ''new car''])
   = Some \<lparr>user = Some 1, pending_goal = Some 3, conversation_stage = GET_GOAL_DETAILS\<rparr>"
  by (simp add: run_eval str_eval date_eval identity_fields_def)

theorem C1_pending_goal_invariant_witness:
  "case conversation (example_env (Some identity_text))
     initial_heap 0 [''John Smith, born 1990-05-01, john@example.com'', ''new car''] of
     Inl err \<Rightarrow> False
   | Inr (h, s) \<Rightarrow>
       reachable h 0 \<and> conversation_stage (info_objs h 0) = GET_GOAL_DETAILS \<and>
       pending_goal (info_objs h 0) = Some 3 \<and> pending_iff_capture (info_objs h 0)"
proof -
  let ?run = "conversation (example_env (Some identity_text))
     initial_heap 0 [''John Smith, born 1990-05-01, john@example.com'', ''new car'']"
  let ?x = "\<lparr>user = Some 1, pending_goal = Some 3, conversation_stage = GET_GOAL_DETAILS\<rparr>"
  from capture_run obtain h s where hs: "?run = Inr (h, s)"
    and x: "info_objs h (extracted_information (state_objs h s)) = ?x"
    by (auto simp: snapshot_after_def split: sum.splits)
  have "reachable initial_heap 0"
    by (rule reachable.initial) (simp add: initial_heap_def)
  moreover have "extracted_information (state_objs initial_heap 0) = 0"
    by (simp add: initial_heap_def initial_state_def)
  ultimately have r: "reachable h 0" and e: "extracted_information (state_objs h s) = 0"
    using reachable_conversation [OF hs] by blast+
  have "conversation_stage (info_objs h 0) = COMPLETED \<or> pending_iff_capture (info_objs h 0)"
    by (rule C1_pending_goal_invariant [OF r])
  then have "pending_iff_capture (info_objs h 0)"
    using x e by simp
  then show ?thesis
    using hs r x e by simp
qed

text \<open>
  C1, as stated, fails: a stop command during goal capture moves to \<open>COMPLETED\<close> and
  leaves the pending goal in place.
\<close>

theorem C1_counterexample:
  "snapshot_after (conversation (example_env (Some identity_text))
     initial_heap 0 [''John Smith, born 1990-05-01, john@example.com'', ''home'', ''stop''])
   = Some \<lparr>user = Some 1, pending_goal = Some 3, conversation_stage = COMPLETED\<rparr> \<and>
   \<not> (\<forall>h e. reachable h e \<longrightarrow> pending_iff_capture (info_objs h e))"
proof -
  let ?run = "conversation (example_env (Some identity_text))
     initial_heap 0 [''John Smith, born 1990-05-01, john@example.com'', ''home'', ''stop'']"
  let ?x = "\<lparr>user = Some 1, pending_goal = Some 3, conversation_stage = COMPLETED\<rparr>"
  have run: "snapshot_after ?run = Some ?x"
    by (rule stop_during_capture)
  then obtain h s where hs: "?run = Inr (h, s)"
    and x: "info_objs h (extracted_information (state_objs h s)) = ?x"
    by (auto simp: snapshot_after_def split: sum.splits)
  have "reachable initial_heap 0"
    by (rule reachable.initial) (simp add: initial_heap_def)
  moreover have "extracted_information (state_objs initial_heap 0) = 0"
    by (simp add: initial_heap_def initial_state_def)
  ultimately have "reachable h 0 \<and> extracted_information (state_objs h s) = 0"
    by (rule reachable_conversation [OF hs])
  then have "reachable h 0" and "\<not> pending_iff_capture (info_objs h 0)"
    using x by (simp_all add: pending_iff_capture_def)
  then have "\<not> (\<forall>h e. reachable h e \<longrightarrow> pending_iff_capture (info_objs h e))"
    by blast
  with run show ?thesis by blast
qed


section \<open>What a call changes\<close>

lemma get_user_info_step_frame:
  assumes "get_user_info_step env h e u = Inr (h1, ms)"
  shows "next_ref h \<le> next_ref h1 \<and> state_objs h1 = state_objs h \<and> goal_objs h1 = goal_objs h \<and>
         (\<forall>r. r \<noteq> e \<longrightarrow> info_objs h1 r = info_objs h r) \<and>
         (\<forall>r<next_ref h. user_objs h1 r = user_objs h r)"
  using assms
  by (auto simp: get_user_info_step_def bind_err_def new_user_def update_info_def Let_def
      split: sum.splits if_splits)

lemma get_goal_type_step_frame:
  assumes "get_goal_type_step env h e u = (h1, ms)"
  shows "next_ref h \<le> next_ref h1 \<and> state_objs h1 = state_objs h \<and> user_objs h1 = user_objs h \<and>
         (\<forall>r. r \<noteq> e \<longrightarrow> info_objs h1 r = info_objs h r) \<and>
         (\<forall>r<next_ref h. goal_objs h1 r = goal_objs h r)"
  using assms
  by (auto simp: get_goal_type_step_def new_goal_def update_info_def Let_def split: if_splits)

lemma get_goal_details_step_frame:
  assumes "get_goal_details_step env h e u = Inr (h1, ms)"
  shows "next_ref h \<le> next_ref h1 \<and> state_objs h1 = state_objs h \<and> user_objs h1 = user_objs h \<and>
         (\<forall>r. r \<noteq> e \<longrightarrow> info_objs h1 r = info_objs h r) \<and>
         (\<forall>r. goal_type (goal_objs h1 r) = goal_type (goal_objs h r) \<and>
              goal_name (goal_objs h1 r) = goal_name (goal_objs h r) \<and>
              (Some r \<noteq> pending_goal (info_objs h e) \<longrightarrow> goal_objs h1 r = goal_objs h r))"
  using assms
  by (auto simp: get_goal_details_step_def bind_err_def update_info_def Let_def
      split: sum.splits option.splits if_splits)

lemma confirm_goal_step_frame:
  assumes "confirm_goal_step env h e u = Inr (h1, ms)"
  shows "next_ref h \<le> next_ref h1 \<and> state_objs h1 = state_objs h \<and> goal_objs h1 = goal_objs h \<and>
         (\<forall>r. r \<noteq> e \<longrightarrow> info_objs h1 r = info_objs h r) \<and>
         (\<forall>r. first_name (user_objs h1 r) = first_name (user_objs h r) \<and>
              last_name (user_objs h1 r) = last_name (user_objs h r) \<and>
              date_of_birth (user_objs h1 r) = date_of_birth (user_objs h r) \<and>
              email (user_objs h1 r) = email (user_objs h r) \<and>
              take (length (goals (user_objs h r))) (goals (user_objs h1 r))
                = goals (user_objs h r))"
  using assms
  by (auto simp: confirm_goal_step_def update_info_def Let_def split: option.splits if_splits)

lemma add_another_goal_step_frame:
  assumes "add_another_goal_step env h e u = (h1, ms)"
  shows "next_ref h \<le> next_ref h1 \<and> state_objs h1 = state_objs h \<and> goal_objs h1 = goal_objs h \<and>
         user_objs h1 = user_objs h \<and> (\<forall>r. r \<noteq> e \<longrightarrow> info_objs h1 r = info_objs h r)"
  using assms
  by (auto simp: add_another_goal_step_def update_info_def split: if_splits)

lemma stage_step_frame:
  assumes "stage_step env h e u = Inr (h1, ms)"
  shows "next_ref h \<le> next_ref h1 \<and> state_objs h1 = state_objs h \<and>
         (\<forall>r. r \<noteq> e \<longrightarrow> info_objs h1 r = info_objs h r) \<and>
         (\<forall>r<next_ref h.
              first_name (user_objs h1 r) = first_name (user_objs h r) \<and>
              last_name (user_objs h1 r) = last_name (user_objs h r) \<and>
              date_of_birth (user_objs h1 r) = date_of_birth (user_objs h r) \<and>
              email (user_objs h1 r) = email (user_objs h r) \<and>
              take (length (goals (user_objs h r))) (goals (user_objs h1 r))
                = goals (user_objs h r)) \<and>
         (\<forall>r<next_ref h.
              goal_type (goal_objs h1 r) = goal_type (goal_objs h r) \<and>
              goal_name (goal_objs h1 r) = goal_name (goal_objs h r) \<and>
              (Some r \<noteq> pending_goal (info_objs h e) \<longrightarrow> goal_objs h1 r = goal_objs h r))"
proof (cases "conversation_stage (info_objs h e)")
  case GET_USER_INFO
  then show ?thesis
    using assms get_user_info_step_frame [of env h e u h1 ms] by (simp add: stage_step_def)
next
  case GET_GOAL_TYPE
  then show ?thesis
    using assms get_goal_type_step_frame [of env h e u h1 ms] by (simp add: stage_step_def)
next
  case GET_GOAL_DETAILS
  then show ?thesis
    using assms get_goal_details_step_frame [of env h e u h1 ms] by (simp add: stage_step_def)
next
  case CONFIRM_GOAL
  then show ?thesis
    using assms confirm_goal_step_frame [of env h e u h1 ms] by (simp add: stage_step_def)
next
  case ADD_ANOTHER_GOAL
  then show ?thesis
    using assms add_another_goal_step_frame [of env h e u h1 ms] by (simp add: stage_step_def)
next
  case COMPLETED
  then show ?thesis
    using assms by (auto simp: stage_step_def)
qed

lemma chat_response_cases:
  assumes "chat_response env h s = Inr (h', s')"
  obtains h1 ms where
    "h' = h1\<lparr>next_ref := Suc (next_ref h1),
            state_objs := (state_objs h1)(next_ref h1 := state_objs h' s')\<rparr>"
    "s' = next_ref h1"
    "extracted_information (state_objs h' s') = extracted_information (state_objs h s)"
    "messages (state_objs h' s') = messages (state_objs h s) @ new_messages (state_objs h s)"
    "h1 = update_info h (extracted_information (state_objs h s))
            (\<lambda>x. x\<lparr>conversation_stage := COMPLETED\<rparr>)
     \<or> stage_step env h (extracted_information (state_objs h s))
           (last_message (state_objs h s)) = Inr (h1, ms)"
proof (cases "strip (lib env) (lower (lib env) (last_message (state_objs h s))) \<in> STOP_COMMANDS")
  case True
  show ?thesis
    by (rule that [of "update_info h (extracted_information (state_objs h s))
            (\<lambda>x. x\<lparr>conversation_stage := COMPLETED\<rparr>)"])
      (use assms True in \<open>auto simp: chat_response_stop new_state_def update_info_def\<close>)
next
  case False
  then obtain h1 ms where 1: "stage_step env h (extracted_information (state_objs h s))
           (last_message (state_objs h s)) = Inr (h1, ms)"
    and 2: "(h', s') = new_state h1
               \<lparr>finished = (conversation_stage
                   (info_objs h1 (extracted_information (state_objs h s))) = COMPLETED),
                messages = messages (state_objs h1 s) @ new_messages (state_objs h1 s),
                new_messages = ms,
                extracted_information = extracted_information (state_objs h s)\<rparr>"
    using assms
    by (auto simp: chat_response_continue bind_err_def split: sum.splits)
  have 3: "state_objs h1 = state_objs h"
    using stage_step_frame [OF 1] by simp
  show ?thesis
    by (rule that [of h1 ms]) (use 1 2 3 in \<open>auto simp: new_state_def\<close>)
qed

text \<open>
  C2, amended. \<open>chat_response\<close> leaves the state object it is given as it was (finished
  flag, messages, new messages) and returns a new state object whose messages are the old
  messages followed by the old new messages. The snapshot is shared: the returned state
  holds the snapshot object of the input, which is updated in place. Of the other objects
  that existed before the call, a user changes only by goals appended to its list, and a
  goal only in its details, and only when it is the pending goal.
\<close>

theorem C2_updates_in_place:
  assumes call: "chat_response env h s = Inr (h', s')"
    and allocated: "s < next_ref h"
    and e: "e = extracted_information (state_objs h s)"
  shows "state_objs h' s = state_objs h s \<and> s' \<noteq> s \<and>
         extracted_information (state_objs h' s') = e \<and>
         messages (state_objs h' s') = messages (state_objs h s) @ new_messages (state_objs h s) \<and>
         (\<forall>r. r \<noteq> e \<longrightarrow> info_objs h' r = info_objs h r) \<and>
         (\<forall>r<next_ref h.
              first_name (user_objs h' r) = first_name (user_objs h r) \<and>
              last_name (user_objs h' r) = last_name (user_objs h r) \<and>
              date_of_birth (user_objs h' r) = date_of_birth (user_objs h r) \<and>
              email (user_objs h' r) = email (user_objs h r) \<and>
              take (length (goals (user_objs h r))) (goals (user_objs h' r))
                = goals (user_objs h r)) \<and>
         (\<forall>r<next_ref h.
              goal_type (goal_objs h' r) = goal_type (goal_objs h r) \<and>
              goal_name (goal_objs h' r) = goal_name (goal_objs h r) \<and>
              (Some r \<noteq> pending_goal (info_objs h e) \<longrightarrow> goal_objs h' r = goal_objs h r))"
proof -
  from call obtain h1 ms where
    h': "h' = h1\<lparr>next_ref := Suc (next_ref h1),
            state_objs := (state_objs h1)(next_ref h1 := state_objs h' s')\<rparr>"
    and s': "s' = next_ref h1"
    and snap: "extracted_information (state_objs h' s') = e"
    and msgs: "messages (state_objs h' s')
                 = messages (state_objs h s) @ new_messages (state_objs h s)"
    and step: "h1 = update_info h e (\<lambda>x. x\<lparr>conversation_stage := COMPLETED\<rparr>)
               \<or> stage_step env h e (last_message (state_objs h s)) = Inr (h1, ms)"
    unfolding e by (rule chat_response_cases)
  have frame: "next_ref h \<le> next_ref h1 \<and> state_objs h1 = state_objs h \<and>
         (\<forall>r. r \<noteq> e \<longrightarrow> info_objs h1 r = info_objs h r) \<and>
         (\<forall>r<next_ref h.
              first_name (user_objs h1 r) = first_name (user_objs h r) \<and>
              last_name (user_objs h1 r) = last_name (user_objs h r) \<and>
              date_of_birth (user_objs h1 r) = date_of_birth (user_objs h r) \<and>
              email (user_objs h1 r) = email (user_objs h r) \<and>
              take (length (goals (user_objs h r))) (goals (user_objs h1 r))
                = goals (user_objs h r)) \<and>
         (\<forall>r<next_ref h.
              goal_type (goal_objs h1 r) = goal_type (goal_objs h r) \<and>
              goal_name (goal_objs h1 r) = goal_name (goal_objs h r) \<and>
              (Some r \<noteq> pending_goal (info_objs h e) \<longrightarrow> goal_objs h1 r = goal_objs h r))"
    using step
  proof
    assume "h1 = update_info h e (\<lambda>x. x\<lparr>conversation_stage := COMPLETED\<rparr>)"
    then show ?thesis by (simp add: update_info_def)
  next
    assume "stage_step env h e (last_message (state_objs h s)) = Inr (h1, ms)"
    then show ?thesis by (rule stage_step_frame)
  qed
  have fresh: "s \<noteq> next_ref h1"
    using frame allocated by simp
  have u: "user_objs h' = user_objs h1" and g: "goal_objs h' = goal_objs h1"
    and i: "info_objs h' = info_objs h1"
    and st: "state_objs h' s = state_objs h1 s"
    using fresh by (subst h', simp)+
  show ?thesis
    using frame fresh snap msgs by (simp add: u g i st s')
qed

lemma confirm_yes_run:
  "case chat_response (example_env None)
      (example_heap \<lparr>user = Some 1, pending_goal = Some 2, conversation_stage = CONFIRM_GOAL\<rparr>
         NEW_HOME ''yes'') 0 of
     Inl err \<Rightarrow> False
   | Inr (h', s') \<Rightarrow>
       s' = 3 \<and> extracted_information (state_objs h' s') = 0 \<and>
       info_objs h' 0 = \<lparr>user = Some 1, pending_goal = None,
                          conversation_stage = ADD_ANOTHER_GOAL\<rparr> \<and>
       goals (user_objs h' 1) = [Some 2]"
  by (simp add: run_eval str_eval)

lemma details_run:
  "case chat_response
      (example_env (Some london_text))
      (example_heap \<lparr>user = Some 1, pending_goal = Some 2,
                      conversation_stage = GET_GOAL_DETAILS\<rparr> NEW_HOME ''a flat in London'') 0 of
     Inl err \<Rightarrow> False
   | Inr (h', s') \<Rightarrow>
       goal_specific_information (goal_objs h' 2)
         = Some (NewHomeGoalInformation (JString ''London'') (Finite 0) (Finite 0) None)"
  by (simp add: run_eval str_eval goal_prompt_def london_fields_def)

theorem C2_updates_in_place_witness:
  "0 < next_ref (example_heap \<lparr>user = Some 1, pending_goal = Some 2,
                   conversation_stage = CONFIRM_GOAL\<rparr> NEW_HOME ''yes'') \<and>
   (case chat_response (example_env None)
      (example_heap \<lparr>user = Some 1, pending_goal = Some 2, conversation_stage = CONFIRM_GOAL\<rparr>
         NEW_HOME ''yes'') 0 of
     Inl err \<Rightarrow> False
   | Inr (h', s') \<Rightarrow>
       s' \<noteq> 0 \<and>
       state_objs h' 0 = state_objs
         (example_heap \<lparr>user = Some 1, pending_goal = Some 2,
                         conversation_stage = CONFIRM_GOAL\<rparr> NEW_HOME ''yes'') 0 \<and>
       extracted_information (state_objs h' s') = 0 \<and>
       messages (state_objs h' s') = [\<lparr>msg_text = ''yes'', sender = USER\<rparr>] \<and>
       first_name (user_objs h' 1) = JString ''John'' \<and>
       goal_type (goal_objs h' 2) = NEW_HOME)"
proof -
  let ?h = "example_heap \<lparr>user = Some 1, pending_goal = Some 2,
                            conversation_stage = CONFIRM_GOAL\<rparr> NEW_HOME ''yes''"
  have n: "0 < next_ref ?h" "(1::nat) < next_ref ?h" "(2::nat) < next_ref ?h"
    by (simp_all add: example_heap_def)
  have e: "0 = extracted_information (state_objs ?h 0)"
    by (simp add: example_heap_def)
  have v: "messages (state_objs ?h 0) @ new_messages (state_objs ?h 0)
             = [\<lparr>msg_text = ''yes'', sender = USER\<rparr>]"
    "first_name (user_objs ?h 1) = JString ''John''" "goal_type (goal_objs ?h 2) = NEW_HOME"
    by (simp_all add: example_heap_def example_user_def)
  from confirm_yes_run obtain h' s' where
    call: "chat_response (example_env None) ?h 0 = Inr (h', s')"
    by (auto split: sum.splits)
  note frame = C2_updates_in_place [OF call n(1) e]
  from frame have a: "s' \<noteq> 0" "state_objs h' 0 = state_objs ?h 0"
    "extracted_information (state_objs h' s') = 0"
    "messages (state_objs h' s') = messages (state_objs ?h 0) @ new_messages (state_objs ?h 0)"
    by blast+
  from frame n(2) have u: "first_name (user_objs h' 1) = first_name (user_objs ?h 1)"
    by blast
  from frame n(3) have g: "goal_type (goal_objs h' 2) = goal_type (goal_objs ?h 2)"
    by blast
  show ?thesis
    unfolding call using n(1) a u g unfolding v by simp
qed

text \<open>
  C2, as stated, fails: after the call the snapshot of the input state, its user's goals
  and its pending goal differ from what they were.
\<close>

theorem C2_counterexample:
  "(case chat_response (example_env None)
      (example_heap \<lparr>user = Some 1, pending_goal = Some 2, conversation_stage = CONFIRM_GOAL\<rparr>
         NEW_HOME ''yes'') 0 of
     Inl err \<Rightarrow> False
   | Inr (h', s') \<Rightarrow>
       extracted_information (state_objs h' s') = 0 \<and>
       info_objs h' 0 \<noteq> info_objs
         (example_heap \<lparr>user = Some 1, pending_goal = Some 2,
                         conversation_stage = CONFIRM_GOAL\<rparr> NEW_HOME ''yes'') 0 \<and>
       user_objs h' 1 \<noteq> user_objs
         (example_heap \<lparr>user = Some 1, pending_goal = Some 2,
                         conversation_stage = CONFIRM_GOAL\<rparr> NEW_HOME ''yes'') 1) \<and>
   (case chat_response
      (example_env (Some london_text))
      (example_heap \<lparr>user = Some 1, pending_goal = Some 2,
                      conversation_stage = GET_GOAL_DETAILS\<rparr> NEW_HOME ''a flat in London'') 0 of
     Inl err \<Rightarrow> False
   | Inr (h', s') \<Rightarrow>
       goal_objs h' 2 \<noteq> goal_objs
         (example_heap \<lparr>user = Some 1, pending_goal = Some 2,
                         conversation_stage = GET_GOAL_DETAILS\<rparr> NEW_HOME ''a flat in London'') 2)"
proof -
  have 1: "info_objs (example_heap \<lparr>user = Some 1, pending_goal = Some 2,
             conversation_stage = CONFIRM_GOAL\<rparr> NEW_HOME ''yes'') 0
           = \<lparr>user = Some 1, pending_goal = Some 2, conversation_stage = CONFIRM_GOAL\<rparr>"
    and 2: "goals (user_objs (example_heap \<lparr>user = Some 1, pending_goal = Some 2,
             conversation_stage = CONFIRM_GOAL\<rparr> NEW_HOME ''yes'') 1) = []"
    and 3: "goal_specific_information (goal_objs (example_heap \<lparr>user = Some 1,
             pending_goal = Some 2, conversation_stage = GET_GOAL_DETAILS\<rparr> NEW_HOME
             ''a flat in London'') 2) = None"
    by (simp_all add: example_heap_def example_user_def)
  show ?thesis
    using confirm_yes_run details_run 1 2 3
    by (auto split: sum.splits)
qed

end
